theory Spec2Isabelle
  imports Main "HOL-Library.Word" "HOL-Library.Sublist"
begin

section \<open>Data model of the tablet server\<close>

text \<open>
  The serving controller is the Go type \<^verbatim>\<open>TabletServer\<close> of
  \<^verbatim>\<open>go/vt/tabletserver/tabletserver.go\<close>. Its mutable fields become a record
  that every operation takes and returns. The mutexes \<^verbatim>\<open>mu\<close> and
  \<^verbatim>\<open>streamHealthMutex\<close> make each operation below atomic with respect to the
  fields it touches, which is the granularity of this model: one operation is one step.
\<close>

subsection \<open>Serving states\<close>

text \<open>The \<^verbatim>\<open>iota\<close> constants \<^verbatim>\<open>StateNotConnected\<close> (0) to \<^verbatim>\<open>StateShuttingDown\<close> (4).\<close>

datatype ServingState =
    StateNotConnected
  | StateNotServing
  | StateServing
  | StateTransitioning
  | StateShuttingDown

text \<open>The table \<^verbatim>\<open>stateName\<close>: the names overlap, three states read \<^verbatim>\<open>NOT_SERVING\<close>.\<close>

fun stateName :: "ServingState \<Rightarrow> string" where
  "stateName StateNotConnected = ''NOT_SERVING''"
| "stateName StateNotServing = ''NOT_SERVING''"
| "stateName StateServing = ''SERVING''"
| "stateName StateTransitioning = ''NOT_SERVING''"
| "stateName StateShuttingDown = ''SHUTTING_DOWN''"

subsection \<open>Targets\<close>

text \<open>
  The protobuf enum \<^verbatim>\<open>topodatapb.TabletType\<close> and the message
  \<^verbatim>\<open>querypb.Target\<close> are declared in generated code outside \<^verbatim>\<open>tabletserver.go\<close>; the
  enum is taken with its members, the message with the three fields the server reads.
\<close>

datatype TabletType =
    UNKNOWN | MASTER | REPLICA | RDONLY | SPARE | EXPERIMENTAL | BACKUP | RESTORE | WORKER

fun TabletType_String :: "TabletType \<Rightarrow> string" where
  "TabletType_String UNKNOWN = ''UNKNOWN''"
| "TabletType_String MASTER = ''MASTER''"
| "TabletType_String REPLICA = ''REPLICA''"
| "TabletType_String RDONLY = ''RDONLY''"
| "TabletType_String SPARE = ''SPARE''"
| "TabletType_String EXPERIMENTAL = ''EXPERIMENTAL''"
| "TabletType_String BACKUP = ''BACKUP''"
| "TabletType_String RESTORE = ''RESTORE''"
| "TabletType_String WORKER = ''WORKER''"

record Target =
  Keyspace :: string
  Shard :: string
  TabletType :: TabletType

subsection \<open>Errors\<close>

text \<open>
  The enum \<^verbatim>\<open>vtrpcpb.ErrorCode\<close> and the struct \<^verbatim>\<open>tabletenv.TabletError\<close>
  are declared outside \<^verbatim>\<open>tabletserver.go\<close>. The struct is taken with the four fields that
  \<^verbatim>\<open>handleError\<close> reads and writes. \<^verbatim>\<open>NewTabletError\<close> sets the code and
  the formatted message and leaves the MySQL error number at 0 and the SQL state empty.
\<close>

datatype ErrorCode =
    SUCCESS | CANCELLED | UNKNOWN_ERROR | BAD_INPUT | DEADLINE_EXCEEDED
  | INTEGRITY_ERROR | PERMISSION_DENIED | RESOURCE_EXHAUSTED | QUERY_NOT_SERVED
  | NOT_IN_TX | INTERNAL_ERROR | TRANSIENT_ERROR | UNAUTHENTICATED

record TabletError =
  Message :: string
  SQLError :: int
  SQLState :: string
  ErrorCode :: ErrorCode

definition NewTabletError :: "ErrorCode \<Rightarrow> string \<Rightarrow> TabletError" where
  "NewTabletError errCode msg =
     \<lparr>Message = msg, SQLError = 0, SQLState = [], ErrorCode = errCode\<rparr>"

text \<open>
  A Go \<^verbatim>\<open>error\<close> is either a \<^verbatim>\<open>*TabletError\<close> or some other error, of which
  only the text is kept.
\<close>

datatype error = TabletErr TabletError | PlainErr string

subsection \<open>Contexts\<close>

text \<open>
  Of a \<^verbatim>\<open>context.Context\<close> the server reads one thing: whether it is the marker
  made by \<^verbatim>\<open>localContext()\<close>, which \<^verbatim>\<open>isLocalContext\<close> tests. Both
  helpers live outside \<^verbatim>\<open>tabletserver.go\<close>.
\<close>

record Context =
  isLocalContext :: bool

definition localContext :: Context where
  "localContext = \<lparr>isLocalContext = True\<rparr>"

subsection \<open>Health snapshots and subscriber channels\<close>

record StreamHealthResponse =
  shrTarget :: Target
  Serving :: bool
  TabletExternallyReparentedTimestamp :: int
  RealtimeStats :: string

text \<open>
  A buffered Go channel: the queued messages, oldest first, and the capacity given to
  \<^verbatim>\<open>make\<close>.
\<close>

record Chan =
  buf :: "StreamHealthResponse list"
  cap :: nat

subsection \<open>Bind variables\<close>

text \<open>
  Bind variables are a Go map from names to values; the values are kept as their bytes.
  A \<^verbatim>\<open>nil\<close> map and an empty one both have length 0 and are the empty list.
\<close>

type_synonym BindVars = "(string \<times> string) list"

subsection \<open>Queries, results and closures\<close>

text \<open>
  What a closure handed to \<^verbatim>\<open>execRequest\<close> can do: return a value, return an
  error, or panic with a value (of which the text is kept).
\<close>

datatype 'r Outcome = Ok 'r | Err error | Panicked string

record Result =
  RowsAffected :: nat
  Rows :: "string list list"

record BoundQuery =
  Sql :: string
  BindVariables :: BindVars

record QuerySplit =
  splitSql :: string
  splitBindVariables :: BindVars
  RowCount :: int

text \<open>
  The protobuf enum \<^verbatim>\<open>querypb.SplitQueryRequest_Algorithm\<close>: its two members, and
  any other number that arrives on the wire, which \<^verbatim>\<open>%v\<close> prints as the number.
\<close>

datatype Algorithm = EQUAL_SPLITS | FULL_SCAN | OtherAlgorithm int

subsection \<open>The transaction pool\<close>

text \<open>
  Modelled from the spec: the transaction pool (\<^verbatim>\<open>tsv.te.txPool\<close>) and the
  transaction engine's \<^verbatim>\<open>Close\<close> are defined outside \<^verbatim>\<open>tabletserver.go\<close>. The specification
  says that the pool is bounded by a configured capacity and that \<^verbatim>\<open>Begin\<close> fails with
  RESOURCE_EXHAUSTED ("tx pool full") on exhaustion; that identifiers are monotonically
  unique; that a transaction lives from \<^verbatim>\<open>Begin\<close> to its terminal action, commit
  or rollback; that \<^verbatim>\<open>Commit\<close> and \<^verbatim>\<open>Rollback\<close> remove the transaction from
  the active map, and that an unknown or already concluded identifier is NOT_IN_TX. The
  server uses the identifier 0 for "no transaction", so the pool hands out positive
  identifiers. The pool keeps the active transactions and, in the order of their
  conclusion, the transactions that were committed and those that were rolled back.
\<close>

record TxPool =
  activeTx :: "int list"
  lastID :: nat
  txCapacity :: nat
  committed :: "int list"
  rolledBack :: "int list"

text \<open>
  Modelled from the spec: \<^verbatim>\<open>TxPool.Begin\<close>, which is defined outside \<^verbatim>\<open>tabletserver.go\<close>. A full pool
  answers RESOURCE_EXHAUSTED; otherwise the next identifier is issued and becomes active.
\<close>

definition TxPool_Begin :: "TxPool \<Rightarrow> (error + int) \<times> TxPool" where
  "TxPool_Begin p =
     (if txCapacity p \<le> length (activeTx p) then
        (Inl (TabletErr (NewTabletError RESOURCE_EXHAUSTED ''tx pool full'')), p)
      else
        (let transactionID = int (lastID p) + 1
         in (Inr transactionID,
             p\<lparr>activeTx := activeTx p @ [transactionID], lastID := lastID p + 1\<rparr>)))"

text \<open>
  Modelled from the spec: \<^verbatim>\<open>TxPool.Commit\<close>, which is defined outside \<^verbatim>\<open>tabletserver.go\<close>. An active
  transaction leaves the active map and is committed; an unknown or concluded
  identifier is NOT_IN_TX.
\<close>

definition TxPool_Commit :: "int \<Rightarrow> TxPool \<Rightarrow> error option \<times> TxPool" where
  "TxPool_Commit transactionID p =
     (if transactionID \<in> set (activeTx p) then
        (None, p\<lparr>activeTx := filter (\<lambda>i. i \<noteq> transactionID) (activeTx p),
                  committed := committed p @ [transactionID]\<rparr>)
      else
        (Some (TabletErr (NewTabletError NOT_IN_TX ''transaction not found'')), p))"

text \<open>
  Modelled from the spec: \<^verbatim>\<open>TxPool.Rollback\<close>, which is defined outside \<^verbatim>\<open>tabletserver.go\<close>. An active
  transaction leaves the active map and is rolled back; an unknown or concluded
  identifier is NOT_IN_TX.
\<close>

definition TxPool_Rollback :: "int \<Rightarrow> TxPool \<Rightarrow> error option \<times> TxPool" where
  "TxPool_Rollback transactionID p =
     (if transactionID \<in> set (activeTx p) then
        (None, p\<lparr>activeTx := filter (\<lambda>i. i \<noteq> transactionID) (activeTx p),
                  rolledBack := rolledBack p @ [transactionID]\<rparr>)
      else
        (Some (TabletErr (NewTabletError NOT_IN_TX ''transaction not found'')), p))"

text \<open>
  Modelled from the spec: \<^verbatim>\<open>TxEngine.Close\<close> closes the transaction pool. The
  transactions still open when it closes are rolled back (the server's comment: it waits
  "before rolling back everything"), so none is active after it.
\<close>

definition TxEngine_Close :: "TxPool \<Rightarrow> TxPool" where
  "TxEngine_Close p = p\<lparr>activeTx := [], rolledBack := rolledBack p @ activeTx p\<rparr>"

subsection \<open>The server\<close>

text \<open>
  \<^verbatim>\<open>lameduck\<close> is a \<^verbatim>\<open>sync2.AtomicInt32\<close>; \<^verbatim>\<open>requests\<close> and
  \<^verbatim>\<open>txRequests\<close> are \<^verbatim>\<open>sync.WaitGroup\<close>s, kept as their counters;
  \<^verbatim>\<open>streamHealthMap\<close> is an association list with one entry per registered id;
  \<^verbatim>\<open>txPool\<close> stands for \<^verbatim>\<open>tsv.te.txPool\<close>.
\<close>

record TabletServer =
  state :: ServingState
  lameduck :: "32 word"
  target :: Target
  alsoAllow :: "TabletType list"
  requests :: int
  txRequests :: int
  streamHealthIndex :: int
  streamHealthMap :: "(int \<times> Chan) list"
  lastStreamHealthResponse :: "StreamHealthResponse option"
  txPool :: TxPool

subsection \<open>Collaborators\<close>

text \<open>
  The engines behind the controller are outside \<^verbatim>\<open>tabletserver.go\<close>. Their answers are parameters:
  the configuration flag for terse errors; the answer of the transaction throttler; the
  query executor (plan lookup and execution of one statement, given the transaction id),
  the splitter (everything \<^verbatim>\<open>SplitQuery\<close> does after its validation and its choice
  of split parameters); the formatting helpers used in panic messages; and the errors,
  if any, of the four start-up steps that can fail.
\<close>

record Env =
  TerseErrors :: bool
  Throttle :: bool
  qreExecute :: "string \<Rightarrow> BindVars \<Rightarrow> int \<Rightarrow> TxPool \<Rightarrow> Result Outcome \<times> TxPool"
  splitCompute :: "BoundQuery \<Rightarrow> string list \<Rightarrow> int \<Rightarrow> int \<Rightarrow> Algorithm \<Rightarrow> TxPool
                     \<Rightarrow> QuerySplit list Outcome \<times> TxPool"
  QueryAsString :: "string \<Rightarrow> BindVars \<Rightarrow> string"
  Stack :: string
  NewDBConnection_err :: "error option"
  qeOpen_err :: "error option"
  teInit_err :: "error option"
  txThrottlerOpen_err :: "error option"

section \<open>State name and lameduck\<close>

definition GetState :: "TabletServer \<Rightarrow> string" where
  "GetState tsv =
     (if lameduck tsv \<noteq> 0 then ''NOT_SERVING'' else stateName (state tsv))"

definition IsServing :: "TabletServer \<Rightarrow> bool" where
  "IsServing tsv = (GetState tsv = ''SERVING'')"

definition EnterLameduck :: "TabletServer \<Rightarrow> TabletServer" where
  "EnterLameduck tsv = tsv\<lparr>lameduck := 1\<rparr>"

definition ExitLameduck :: "TabletServer \<Rightarrow> TabletServer" where
  "ExitLameduck tsv = tsv\<lparr>lameduck := 0\<rparr>"

section \<open>Request admission\<close>

text \<open>The loop over \<^verbatim>\<open>tsv.alsoAllow\<close> that jumps to \<^verbatim>\<open>ok\<close> on the first match.\<close>

fun inAlsoAllow :: "TabletType \<Rightarrow> TabletType list \<Rightarrow> bool" where
  "inAlsoAllow t [] = False"
| "inAlsoAllow t (otherType # rest) = (if t = otherType then True else inAlsoAllow t rest)"

text \<open>Go prints a slice with \<^verbatim>\<open>%v\<close> as its elements between brackets, separated by spaces.\<close>

fun joinSpace :: "string list \<Rightarrow> string" where
  "joinSpace [] = []"
| "joinSpace [x] = x"
| "joinSpace (x # y # ys) = x @ '' '' @ joinSpace (y # ys)"

definition showTypes :: "TabletType list \<Rightarrow> string" where
  "showTypes ts = ''['' @ joinSpace (map TabletType_String ts) @ '']''"

text \<open>The part of \<^verbatim>\<open>startRequest\<close> under the label \<^verbatim>\<open>verifyTarget\<close>, up to the label \<^verbatim>\<open>ok\<close>.\<close>

fun verifyTarget :: "Context \<Rightarrow> Target option \<Rightarrow> bool \<Rightarrow> TabletServer \<Rightarrow> TabletError option" where
  "verifyTarget ctx (Some tgt) isTx tsv =
     (if Keyspace tgt \<noteq> Keyspace (target tsv) then
        Some (NewTabletError QUERY_NOT_SERVED (''Invalid keyspace '' @ Keyspace tgt))
      else if Shard tgt \<noteq> Shard (target tsv) then
        Some (NewTabletError QUERY_NOT_SERVED (''Invalid shard '' @ Shard tgt))
      else if isTx \<and> TabletType (target tsv) \<noteq> MASTER then
        Some (NewTabletError QUERY_NOT_SERVED
          (''transactional statement disallowed on non-master tablet: ''
             @ TabletType_String (TabletType (target tsv))))
      else if TabletType tgt \<noteq> TabletType (target tsv) then
        (if inAlsoAllow (TabletType tgt) (alsoAllow tsv) then None
         else Some (NewTabletError QUERY_NOT_SERVED
           (''Invalid tablet type: '' @ TabletType_String (TabletType tgt)
              @ '', want: '' @ TabletType_String (TabletType (target tsv))
              @ '' or '' @ showTypes (alsoAllow tsv))))
      else None)"
| "verifyTarget ctx None isTx tsv =
     (if \<not> isLocalContext ctx then Some (NewTabletError QUERY_NOT_SERVED ''No target'')
      else None)"

text \<open>
  \<^verbatim>\<open>startRequest\<close> returns the error, if any, and the server, whose two counters
  are incremented on admission only.
\<close>

definition startRequest ::
  "Context \<Rightarrow> Target option \<Rightarrow> bool \<Rightarrow> bool \<Rightarrow> TabletServer \<Rightarrow> TabletError option \<times> TabletServer" where
  "startRequest ctx tgt isTx allowOnShutdown tsv =
     (if state tsv = StateServing \<or> (allowOnShutdown \<and> state tsv = StateShuttingDown) then
        (case verifyTarget ctx tgt isTx tsv of
           Some e \<Rightarrow> (Some e, tsv)
         | None \<Rightarrow>
             (None, tsv\<lparr>requests := requests tsv + 1,
                        txRequests := (if isTx then txRequests tsv + 1 else txRequests tsv)\<rparr>))
      else
        (Some (NewTabletError QUERY_NOT_SERVED
           (''operation not allowed in state '' @ stateName (state tsv))), tsv))"

definition endRequest :: "bool \<Rightarrow> TabletServer \<Rightarrow> TabletServer" where
  "endRequest isTx tsv =
     tsv\<lparr>requests := requests tsv - 1,
         txRequests := (if isTx then txRequests tsv - 1 else txRequests tsv)\<rparr>"

text \<open>
  The admission condition in the words of the specification, which names the state gate
  and the checks made on a target that is present.
\<close>

definition spec_admitted :: "TabletServer \<Rightarrow> Target option \<Rightarrow> bool \<Rightarrow> bool \<Rightarrow> bool" where
  "spec_admitted tsv tgt isTx allowOnShutdown =
     ((state tsv = StateServing \<or> (allowOnShutdown \<and> state tsv = StateShuttingDown)) \<and>
      (case tgt of
         None \<Rightarrow> True
       | Some t \<Rightarrow>
           Keyspace t = Keyspace (target tsv) \<and> Shard t = Shard (target tsv) \<and>
           (isTx \<longrightarrow> TabletType (target tsv) = MASTER) \<and>
           (TabletType t = TabletType (target tsv) \<or> TabletType t \<in> set (alsoAllow tsv))))"

section \<open>Error reporting\<close>

text \<open>The verb \<^verbatim>\<open>%d\<close> of \<^verbatim>\<open>fmt.Sprintf\<close> on an \<^verbatim>\<open>int\<close>.\<close>

definition digitChar :: "nat \<Rightarrow> char" where
  "digitChar n = ''0123456789'' ! (n mod 10)"

fun showNat :: "nat \<Rightarrow> string" where
  "showNat n = (if n < 10 then [digitChar n] else showNat (n div 10) @ [digitChar n])"

declare showNat.simps [simp del]

definition showInt :: "int \<Rightarrow> string" where
  "showInt i = (if i < 0 then ''-'' @ showNat (nat (- i)) else showNat (nat i))"

definition failoverMessage :: string where
  "failoverMessage = ''failover in progress (errno 1227) (sqlstate 42000)''"

text \<open>
  \<^verbatim>\<open>handleError\<close> with the configuration flag \<^verbatim>\<open>tabletenv.Config.TerseErrors\<close>
  as its first argument. Recording statistics and choosing the log method have no effect
  on the value returned, which is \<^verbatim>\<open>myError\<close> on every path.
\<close>

definition handleError :: "bool \<Rightarrow> string \<Rightarrow> BindVars \<Rightarrow> error \<Rightarrow> TabletError" where
  "handleError terseErrors sql bindVariables err =
     (let terr = (case err of
                    TabletErr t \<Rightarrow> t
                  | PlainErr msg \<Rightarrow> NewTabletError UNKNOWN_ERROR msg)
      in if terseErrors \<and> SQLError terr \<noteq> 0 \<and> length bindVariables \<noteq> 0 then
           (if SQLError terr = 1227 \<and> Message terr = failoverMessage then terr
            else \<lparr>Message = ''(errno '' @ showInt (SQLError terr) @ '') (sqlstate ''
                             @ SQLState terr @ '') during query: '' @ sql,
                  SQLError = SQLError terr,
                  SQLState = SQLState terr,
                  ErrorCode = ErrorCode terr\<rparr>)
         else terr)"

section \<open>Running a request\<close>

text \<open>
  The error that \<^verbatim>\<open>handlePanicAndSendLogStats\<close> stores when it recovers a panic with
  value \<open>x\<close>: the format is \<^verbatim>\<open>"Uncaught panic for %v:\n%v\n%s"\<close>.
\<close>

definition panicError :: "Env \<Rightarrow> string \<Rightarrow> BindVars \<Rightarrow> string \<Rightarrow> TabletError" where
  "panicError env sql bindVariables x =
     NewTabletError UNKNOWN_ERROR
       (''Uncaught panic for '' @ QueryAsString env sql bindVariables @ '':'' @ [CHR 0x0A]
          @ x @ [CHR 0x0A] @ Stack env)"

text \<open>
  What \<^verbatim>\<open>execRequest\<close> returns for each outcome of its closure: the value, the error
  as \<^verbatim>\<open>handleError\<close> reports it, or the error made from a recovered panic.
\<close>

fun outcomeResult :: "Env \<Rightarrow> string \<Rightarrow> BindVars \<Rightarrow> 'r Outcome \<Rightarrow> TabletError + 'r" where
  "outcomeResult env sql bindVariables (Ok r) = Inr r"
| "outcomeResult env sql bindVariables (Err e) =
     Inl (handleError (TerseErrors env) sql bindVariables e)"
| "outcomeResult env sql bindVariables (Panicked x) = Inl (panicError env sql bindVariables x)"

text \<open>
  \<^verbatim>\<open>execRequest\<close>: admission, the closure, then the deferred calls, which run on
  every path after admission: \<^verbatim>\<open>endRequest\<close> first, then the recovery of a panic.
  The closure works on the engines, here the transaction pool. The timeout and the
  request name only set a deadline and label the log statistics; they are left out.
\<close>

definition execRequest ::
  "Env \<Rightarrow> Context \<Rightarrow> string \<Rightarrow> BindVars \<Rightarrow> Target option \<Rightarrow> bool \<Rightarrow> bool
     \<Rightarrow> (TxPool \<Rightarrow> 'r Outcome \<times> TxPool) \<Rightarrow> TabletServer \<Rightarrow> (TabletError + 'r) \<times> TabletServer" where
  "execRequest env ctx sql bindVariables tgt isTx allowOnShutdown exec tsv =
     (case startRequest ctx tgt isTx allowOnShutdown tsv of
        (Some e, tsv1) \<Rightarrow> (Inl e, tsv1)
      | (None, tsv1) \<Rightarrow>
          (case exec (txPool tsv1) of
             (out, p) \<Rightarrow>
               (outcomeResult env sql bindVariables out,
                endRequest isTx (tsv1\<lparr>txPool := p\<rparr>))))"

definition beginExec :: "Env \<Rightarrow> TxPool \<Rightarrow> int Outcome \<times> TxPool" where
  "beginExec env p =
     (if Throttle env then
        (Err (TabletErr (NewTabletError TRANSIENT_ERROR ''Transaction throttled'')), p)
      else
        (case TxPool_Begin p of
           (Inl e, p') \<Rightarrow> (Err e, p')
         | (Inr transactionID, p') \<Rightarrow> (Ok transactionID, p')))"

definition Begin ::
  "Env \<Rightarrow> Context \<Rightarrow> Target option \<Rightarrow> TabletServer \<Rightarrow> (TabletError + int) \<times> TabletServer" where
  "Begin env ctx tgt tsv = execRequest env ctx ''begin'' [] tgt True False (beginExec env) tsv"

definition commitExec :: "int \<Rightarrow> TxPool \<Rightarrow> unit Outcome \<times> TxPool" where
  "commitExec transactionID p =
     (case TxPool_Commit transactionID p of
        (Some e, p') \<Rightarrow> (Err e, p')
      | (None, p') \<Rightarrow> (Ok (), p'))"

definition Commit ::
  "Env \<Rightarrow> Context \<Rightarrow> Target option \<Rightarrow> int \<Rightarrow> TabletServer \<Rightarrow> (TabletError + unit) \<times> TabletServer" where
  "Commit env ctx tgt transactionID tsv =
     execRequest env ctx ''commit'' [] tgt True True (commitExec transactionID) tsv"

definition rollbackExec :: "int \<Rightarrow> TxPool \<Rightarrow> unit Outcome \<times> TxPool" where
  "rollbackExec transactionID p =
     (case TxPool_Rollback transactionID p of
        (Some e, p') \<Rightarrow> (Err e, p')
      | (None, p') \<Rightarrow> (Ok (), p'))"

definition Rollback ::
  "Env \<Rightarrow> Context \<Rightarrow> Target option \<Rightarrow> int \<Rightarrow> TabletServer \<Rightarrow> (TabletError + unit) \<times> TabletServer" where
  "Rollback env ctx tgt transactionID tsv =
     execRequest env ctx ''rollback'' [] tgt True True (rollbackExec transactionID) tsv"

definition Execute ::
  "Env \<Rightarrow> Context \<Rightarrow> Target option \<Rightarrow> string \<Rightarrow> BindVars \<Rightarrow> int \<Rightarrow> TabletServer
     \<Rightarrow> (TabletError + Result) \<times> TabletServer" where
  "Execute env ctx tgt sql bindVariables transactionID tsv =
     execRequest env ctx sql bindVariables tgt False (transactionID \<noteq> 0)
       (qreExecute env sql bindVariables transactionID) tsv"

section \<open>Batches\<close>

text \<open>The loop of \<^verbatim>\<open>ExecuteBatch\<close> over the queries; it returns at the first error.\<close>

fun executeLoop ::
  "Env \<Rightarrow> Context \<Rightarrow> Target option \<Rightarrow> BoundQuery list \<Rightarrow> int \<Rightarrow> Result list \<Rightarrow> TabletServer
     \<Rightarrow> (TabletError + Result list) \<times> TabletServer" where
  "executeLoop env ctx tgt [] transactionID results tsv = (Inr results, tsv)"
| "executeLoop env ctx tgt (bound # rest) transactionID results tsv =
     (case Execute env ctx tgt (Sql bound) (BindVariables bound) transactionID tsv of
        (Inl e, tsv1) \<Rightarrow> (Inl (handleError (TerseErrors env) ''batch'' [] (TabletErr e)), tsv1)
      | (Inr localReply, tsv1) \<Rightarrow>
          executeLoop env ctx tgt rest transactionID (results @ [localReply]) tsv1)"

text \<open>
  The deferred function of \<^verbatim>\<open>ExecuteBatch\<close>: it rolls back when the variable
  \<^verbatim>\<open>transactionID\<close> is not 0 at the return, and drops the result of the rollback.
\<close>

definition deferredRollback ::
  "Env \<Rightarrow> Context \<Rightarrow> Target option \<Rightarrow> int \<Rightarrow> TabletServer \<Rightarrow> TabletServer" where
  "deferredRollback env ctx tgt transactionID tsv =
     (if transactionID \<noteq> 0 then snd (Rollback env ctx tgt transactionID tsv) else tsv)"

text \<open>The body of \<^verbatim>\<open>ExecuteBatch\<close> between its own admission and its \<^verbatim>\<open>endRequest\<close>.\<close>

definition batchBody ::
  "Env \<Rightarrow> Context \<Rightarrow> Target option \<Rightarrow> BoundQuery list \<Rightarrow> bool \<Rightarrow> int \<Rightarrow> TabletServer
     \<Rightarrow> (TabletError + Result list) \<times> TabletServer" where
  "batchBody env ctx tgt queries asTransaction transactionID tsv =
     (if asTransaction then
        (case Begin env ctx tgt tsv of
           (Inl e, tsv1) \<Rightarrow> (Inl (handleError (TerseErrors env) ''batch'' [] (TabletErr e)), tsv1)
         | (Inr txid, tsv1) \<Rightarrow>
             (case executeLoop env ctx tgt queries txid [] tsv1 of
                (Inl e, tsv2) \<Rightarrow> (Inl e, deferredRollback env ctx tgt txid tsv2)
              | (Inr results, tsv2) \<Rightarrow>
                  (case Commit env ctx tgt txid tsv2 of
                     (Inl e, tsv3) \<Rightarrow>
                       (Inl (handleError (TerseErrors env) ''batch'' [] (TabletErr e)),
                        deferredRollback env ctx tgt 0 tsv3)
                   | (Inr u, tsv3) \<Rightarrow> (Inr results, deferredRollback env ctx tgt 0 tsv3))))
      else executeLoop env ctx tgt queries transactionID [] tsv)"

definition ExecuteBatch ::
  "Env \<Rightarrow> Context \<Rightarrow> Target option \<Rightarrow> BoundQuery list \<Rightarrow> bool \<Rightarrow> int \<Rightarrow> TabletServer
     \<Rightarrow> (TabletError + Result list) \<times> TabletServer" where
  "ExecuteBatch env ctx tgt queries asTransaction transactionID tsv =
     (if length queries = 0 then
        (Inl (NewTabletError BAD_INPUT ''Empty query list''), tsv)
      else if asTransaction \<and> transactionID \<noteq> 0 then
        (Inl (NewTabletError BAD_INPUT
           ''cannot start a new transaction in the scope of an existing one''), tsv)
      else
        (case startRequest ctx tgt False (transactionID \<noteq> 0) tsv of
           (Some e, tsv1) \<Rightarrow> (Inl e, tsv1)
         | (None, tsv1) \<Rightarrow>
             (case batchBody env ctx tgt queries asTransaction transactionID tsv1 of
                (r, tsv2) \<Rightarrow> (r, endRequest False tsv2))))"

section \<open>Splitting a query\<close>

text \<open>What \<^verbatim>\<open>%v\<close> prints for an algorithm.\<close>

fun Algorithm_String :: "Algorithm \<Rightarrow> string" where
  "Algorithm_String EQUAL_SPLITS = ''EQUAL_SPLITS''"
| "Algorithm_String FULL_SCAN = ''FULL_SCAN''"
| "Algorithm_String (OtherAlgorithm n) = showInt n"

text \<open>
  \<^verbatim>\<open>validateSplitQueryParameters\<close> reads \<^verbatim>\<open>target.TabletType\<close> through the
  pointer it is given, so a \<^verbatim>\<open>nil\<close> target panics. The counts are \<^verbatim>\<open>int64\<close>
  values that are only compared with 0.
\<close>

fun validateSplitQueryParameters ::
  "Env \<Rightarrow> Target option \<Rightarrow> BoundQuery \<Rightarrow> string list \<Rightarrow> int \<Rightarrow> int \<Rightarrow> Algorithm \<Rightarrow> unit Outcome" where
  "validateSplitQueryParameters env None query splitColumns splitCount numRowsPerQueryPart algorithm =
     Panicked ''runtime error: invalid memory address or nil pointer dereference''"
| "validateSplitQueryParameters env (Some tgt) query splitColumns splitCount numRowsPerQueryPart algorithm =
     (if TabletType tgt \<noteq> RDONLY then
        Err (TabletErr (NewTabletError BAD_INPUT
          (''SplitQuery must be called with a RDONLY tablet. TableType passed is: ''
             @ TabletType_String (TabletType tgt))))
      else if numRowsPerQueryPart < 0 then
        Err (TabletErr (NewTabletError BAD_INPUT
          (''splitQuery: numRowsPerQueryPart must be non-negative. Got: ''
             @ showInt numRowsPerQueryPart @ ''. SQL: ''
             @ QueryAsString env (Sql query) (BindVariables query))))
      else if splitCount < 0 then
        Err (TabletErr (NewTabletError BAD_INPUT
          (''splitQuery: splitCount must be non-negative. Got: ''
             @ showInt splitCount @ ''. SQL: ''
             @ QueryAsString env (Sql query) (BindVariables query))))
      else if (splitCount = 0 \<and> numRowsPerQueryPart = 0) \<or>
              (splitCount \<noteq> 0 \<and> numRowsPerQueryPart \<noteq> 0) then
        Err (TabletErr (NewTabletError BAD_INPUT
          (''splitQuery: exactly one of {numRowsPerQueryPart, splitCount} must be''
             @ '' non zero. Got: numRowsPerQueryPart='' @ showInt numRowsPerQueryPart
             @ '', splitCount='' @ showInt splitCount @ ''. SQL: ''
             @ QueryAsString env (Sql query) (BindVariables query))))
      else if algorithm \<noteq> EQUAL_SPLITS \<and> algorithm \<noteq> FULL_SCAN then
        Err (TabletErr (NewTabletError BAD_INPUT
          (''splitquery: unsupported algorithm: '' @ Algorithm_String algorithm @ ''. SQL: ''
             @ QueryAsString env (Sql query) (BindVariables query))))
      else Ok ())"

text \<open>
  The closure of \<^verbatim>\<open>SplitQuery\<close>: the validation, then \<^verbatim>\<open>createSplitParams\<close>,
  whose \<^verbatim>\<open>switch\<close> panics unless exactly one of the two counts is non-zero, then the
  split computation itself, which is the collaborator \<open>splitCompute\<close>.
\<close>

definition splitQueryExec ::
  "Env \<Rightarrow> Target option \<Rightarrow> BoundQuery \<Rightarrow> string list \<Rightarrow> int \<Rightarrow> int \<Rightarrow> Algorithm
     \<Rightarrow> TxPool \<Rightarrow> QuerySplit list Outcome \<times> TxPool" where
  "splitQueryExec env tgt query splitColumns splitCount numRowsPerQueryPart algorithm p =
     (case validateSplitQueryParameters env tgt query splitColumns splitCount
             numRowsPerQueryPart algorithm of
        Panicked x \<Rightarrow> (Panicked x, p)
      | Err e \<Rightarrow> (Err e, p)
      | Ok u \<Rightarrow>
          (if (numRowsPerQueryPart \<noteq> 0 \<and> splitCount = 0) \<or>
              (numRowsPerQueryPart = 0 \<and> splitCount \<noteq> 0) then
             splitCompute env query splitColumns splitCount numRowsPerQueryPart algorithm p
           else
             (Panicked ''Exactly one of {numRowsPerQueryPart, splitCount} must be non zero.'', p)))"

definition SplitQuery ::
  "Env \<Rightarrow> Context \<Rightarrow> Target option \<Rightarrow> BoundQuery \<Rightarrow> string list \<Rightarrow> int \<Rightarrow> int \<Rightarrow> Algorithm
     \<Rightarrow> TabletServer \<Rightarrow> (TabletError + QuerySplit list) \<times> TabletServer" where
  "SplitQuery env ctx tgt query splitColumns splitCount numRowsPerQueryPart algorithm tsv =
     execRequest env ctx (Sql query) (BindVariables query) tgt False False
       (splitQueryExec env tgt query splitColumns splitCount numRowsPerQueryPart algorithm) tsv"

section \<open>Changing the serving type\<close>

datatype Action = actionNone | actionFullStart | actionServeNewType | actionGracefulStop

text \<open>
  \<^verbatim>\<open>setState\<close> also logs the change and appends it to the history shown on the
  status page; neither is read by the controller. \<^verbatim>\<open>transition\<close> is \<^verbatim>\<open>setState\<close>
  under the mutex.
\<close>

definition setState :: "ServingState \<Rightarrow> TabletServer \<Rightarrow> TabletServer" where
  "setState newState tsv = tsv\<lparr>state := newState\<rparr>"

definition transition :: "ServingState \<Rightarrow> TabletServer \<Rightarrow> TabletServer" where
  "transition newState tsv = setState newState tsv"

definition decideAction ::
  "TabletType \<Rightarrow> bool \<Rightarrow> TabletType list \<Rightarrow> TabletServer
     \<Rightarrow> (Action \<times> TabletError option) \<times> TabletServer" where
  "decideAction tabletType serving allow tsv =
     (let tsv1 = tsv\<lparr>alsoAllow := allow\<rparr>
      in if TabletType (target tsv1) = tabletType \<and> serving \<and> state tsv1 = StateServing then
           ((actionNone, None), tsv1)
         else
           (let tsv2 = tsv1\<lparr>target := (target tsv1)\<lparr>TabletType := tabletType\<rparr>\<rparr>
            in case state tsv2 of
                 StateNotConnected \<Rightarrow>
                   (if serving then ((actionFullStart, None), setState StateTransitioning tsv2)
                    else ((actionNone, None), tsv2))
               | StateNotServing \<Rightarrow>
                   (if serving then ((actionServeNewType, None), setState StateTransitioning tsv2)
                    else ((actionNone, None), tsv2))
               | StateServing \<Rightarrow>
                   (if \<not> serving then ((actionGracefulStop, None), setState StateShuttingDown tsv2)
                    else ((actionServeNewType, None), setState StateTransitioning tsv2))
               | StateTransitioning \<Rightarrow>
                   ((actionNone, Some (NewTabletError INTERNAL_ERROR
                       (''cannot SetServingType, current state: '' @ stateName (state tsv2)))), tsv2)
               | StateShuttingDown \<Rightarrow>
                   ((actionNone, Some (NewTabletError INTERNAL_ERROR
                       (''cannot SetServingType, current state: '' @ stateName (state tsv2)))), tsv2)))"

text \<open>
  A \<^verbatim>\<open>WaitGroup.Wait\<close> returns once the counter is 0. One call of the model is one
  sequential step, in which nothing else lowers the counter, so a wait on a non-zero
  counter does not return: the result is \<open>None\<close>. (In the server this is where the timer
  of \<^verbatim>\<open>setTimeBomb\<close> ends the process.)
\<close>

definition serveNewType :: "Env \<Rightarrow> TabletServer \<Rightarrow> (error option \<times> TabletServer) option" where
  "serveNewType env tsv =
     (if TabletType (target tsv) = MASTER then
        (case txThrottlerOpen_err env of
           Some e \<Rightarrow> Some (Some e, tsv)
         | None \<Rightarrow> Some (None, transition StateServing tsv))
      else if txRequests tsv \<noteq> 0 then None
      else Some (None, transition StateServing (tsv\<lparr>txPool := TxEngine_Close (txPool tsv)\<rparr>)))"

definition fullStart :: "Env \<Rightarrow> TabletServer \<Rightarrow> (error option \<times> TabletServer) option" where
  "fullStart env tsv =
     (case NewDBConnection_err env of
        Some e \<Rightarrow> Some (Some e, tsv)
      | None \<Rightarrow>
          (case qeOpen_err env of
             Some e \<Rightarrow> Some (Some e, tsv)
           | None \<Rightarrow>
               (case teInit_err env of
                  Some e \<Rightarrow> Some (Some e, tsv)
                | None \<Rightarrow> serveNewType env tsv)))"

definition waitForShutdown :: "TabletServer \<Rightarrow> TabletServer option" where
  "waitForShutdown tsv =
     (if txRequests tsv \<noteq> 0 then None
      else (let tsv1 = tsv\<lparr>txPool := TxEngine_Close (txPool tsv)\<rparr>
            in if requests tsv1 \<noteq> 0 then None else Some tsv1))"

definition gracefulStop :: "TabletServer \<Rightarrow> TabletServer option" where
  "gracefulStop tsv =
     (case waitForShutdown tsv of
        None \<Rightarrow> None
      | Some tsv1 \<Rightarrow> Some (transition StateNotServing tsv1))"

definition closeAll :: "TabletServer \<Rightarrow> TabletServer" where
  "closeAll tsv = transition StateNotConnected (tsv\<lparr>txPool := TxEngine_Close (txPool tsv)\<rparr>)"

text \<open>
  \<^verbatim>\<open>SetServingType\<close> returns \<^verbatim>\<open>(stateChanged, err)\<close>. The deferred
  \<^verbatim>\<open>ExitLameduck\<close> runs at every return.
\<close>

definition SetServingType ::
  "Env \<Rightarrow> TabletType \<Rightarrow> bool \<Rightarrow> TabletType list \<Rightarrow> TabletServer
     \<Rightarrow> ((bool \<times> error option) \<times> TabletServer) option" where
  "SetServingType env tabletType serving allow tsv =
     (case decideAction tabletType serving allow tsv of
        ((action, Some e), tsv1) \<Rightarrow> Some ((False, Some (TabletErr e)), ExitLameduck tsv1)
      | ((action, None), tsv1) \<Rightarrow>
          (case action of
             actionNone \<Rightarrow> Some ((False, None), ExitLameduck tsv1)
           | actionFullStart \<Rightarrow>
               (case fullStart env tsv1 of
                  None \<Rightarrow> None
                | Some (Some e, tsv2) \<Rightarrow> Some ((True, Some e), ExitLameduck (closeAll tsv2))
                | Some (None, tsv2) \<Rightarrow> Some ((True, None), ExitLameduck tsv2))
           | actionServeNewType \<Rightarrow>
               (case serveNewType env tsv1 of
                  None \<Rightarrow> None
                | Some (Some e, tsv2) \<Rightarrow> Some ((True, Some e), ExitLameduck (closeAll tsv2))
                | Some (None, tsv2) \<Rightarrow> Some ((True, None), ExitLameduck tsv2))
           | actionGracefulStop \<Rightarrow>
               (case gracefulStop tsv1 of
                  None \<Rightarrow> None
                | Some tsv2 \<Rightarrow> Some ((True, None), ExitLameduck tsv2))))"

section \<open>Health broadcast\<close>

text \<open>Assignment to a key of the Go map, and \<^verbatim>\<open>delete\<close>.\<close>

fun mapAssign :: "int \<Rightarrow> Chan \<Rightarrow> (int \<times> Chan) list \<Rightarrow> (int \<times> Chan) list" where
  "mapAssign k v [] = [(k, v)]"
| "mapAssign k v ((k', v') # m) =
     (if k = k' then (k, v) # m else (k', v') # mapAssign k v m)"

definition mapDelete :: "int \<Rightarrow> (int \<times> Chan) list \<Rightarrow> (int \<times> Chan) list" where
  "mapDelete k m = filter (\<lambda>kv. fst kv \<noteq> k) m"

definition streamHealthRegister :: "TabletServer \<Rightarrow> (int \<times> Chan) \<times> TabletServer" where
  "streamHealthRegister tsv =
     (let sid = streamHealthIndex tsv;
          ch = \<lparr>buf = [], cap = 10\<rparr>
      in ((sid, ch),
          tsv\<lparr>streamHealthIndex := streamHealthIndex tsv + 1,
              streamHealthMap := mapAssign sid ch (streamHealthMap tsv)\<rparr>))"

definition streamHealthUnregister :: "int \<Rightarrow> TabletServer \<Rightarrow> TabletServer" where
  "streamHealthUnregister sid tsv = tsv\<lparr>streamHealthMap := mapDelete sid (streamHealthMap tsv)\<rparr>"

text \<open>
  The \<^verbatim>\<open>select\<close> with a \<^verbatim>\<open>default\<close> branch: the send happens when the buffer has
  room, and nothing happens otherwise.
\<close>

definition trySend :: "StreamHealthResponse \<Rightarrow> Chan \<Rightarrow> Chan" where
  "trySend shr c = (if length (buf c) < cap c then c\<lparr>buf := buf c @ [shr]\<rparr> else c)"

fun broadcastLoop :: "StreamHealthResponse \<Rightarrow> (int \<times> Chan) list \<Rightarrow> (int \<times> Chan) list" where
  "broadcastLoop shr [] = []"
| "broadcastLoop shr ((sid, c) # rest) = (sid, trySend shr c) # broadcastLoop shr rest"

definition healthSnapshot :: "int \<Rightarrow> string \<Rightarrow> TabletServer \<Rightarrow> StreamHealthResponse" where
  "healthSnapshot terTimestamp stats tsv =
     \<lparr>shrTarget = target tsv,
      Serving = IsServing tsv,
      TabletExternallyReparentedTimestamp = terTimestamp,
      RealtimeStats = stats\<rparr>"

definition BroadcastHealth :: "int \<Rightarrow> string \<Rightarrow> TabletServer \<Rightarrow> TabletServer" where
  "BroadcastHealth terTimestamp stats tsv =
     (let shr = healthSnapshot terTimestamp stats tsv
      in tsv\<lparr>streamHealthMap := broadcastLoop shr (streamHealthMap tsv),
             lastStreamHealthResponse := Some shr\<rparr>)"

section \<open>Fixtures\<close>

text \<open>Concrete servers, targets and collaborators on which the theorems are instantiated.\<close>

definition fixtureTarget :: Target where
  "fixtureTarget = \<lparr>Keyspace = ''test_keyspace'', Shard = ''0'', TabletType = MASTER\<rparr>"

definition fixturePool :: TxPool where
  "fixturePool = \<lparr>activeTx = [], lastID = 0, txCapacity = 3, committed = [], rolledBack = []\<rparr>"

definition fixtureServer :: TabletServer where
  "fixtureServer =
     \<lparr>state = StateServing, lameduck = 0, target = fixtureTarget, alsoAllow = [],
      requests = 0, txRequests = 0, streamHealthIndex = 0, streamHealthMap = [],
      lastStreamHealthResponse = None, txPool = fixturePool\<rparr>"

definition remoteContext :: Context where
  "remoteContext = \<lparr>isLocalContext = False\<rparr>"

definition fixtureResult :: Result where
  "fixtureResult = \<lparr>RowsAffected = 1, Rows = []\<rparr>"

definition fixtureEnv :: Env where
  "fixtureEnv =
     \<lparr>TerseErrors = True, Throttle = False,
      qreExecute = (\<lambda>sql bindVariables transactionID p.
        if sql = ''fail'' then
          (Err (TabletErr \<lparr>Message = ''Duplicate entry (errno 1062) (sqlstate 23000)'',
                            SQLError = 1062, SQLState = ''23000'',
                            ErrorCode = INTEGRITY_ERROR\<rparr>), p)
        else (Ok fixtureResult, p)),
      splitCompute = (\<lambda>query splitColumns splitCount numRowsPerQueryPart algorithm p.
        (Ok [\<lparr>splitSql = Sql query, splitBindVariables = BindVariables query, RowCount = 0\<rparr>], p)),
      QueryAsString = (\<lambda>sql bindVariables. sql),
      Stack = [],
      NewDBConnection_err = None, qeOpen_err = None, teInit_err = None,
      txThrottlerOpen_err = None\<rparr>"

definition fixtureSnapshot :: StreamHealthResponse where
  "fixtureSnapshot =
     \<lparr>shrTarget = fixtureTarget, Serving = True,
      TabletExternallyReparentedTimestamp = 0, RealtimeStats = []\<rparr>"

text \<open>Two subscribers: the first has read everything, the second never reads.\<close>

definition fixtureSubscribed :: TabletServer where
  "fixtureSubscribed =
     fixtureServer\<lparr>streamHealthIndex := 2,
                   streamHealthMap := [(0, \<lparr>buf = [], cap = 10\<rparr>),
                                       (1, \<lparr>buf = replicate 10 fixtureSnapshot, cap = 10\<rparr>)]\<rparr>"



section \<open>Properties of admission\<close>

lemma inAlsoAllow_set: "inAlsoAllow t ts = (t \<in> set ts)"
  by (induction ts) auto

lemma verifyTarget_code:
  "verifyTarget ctx tgt isTx tsv = Some e \<Longrightarrow> ErrorCode e = QUERY_NOT_SERVED"
  by (cases tgt) (auto simp: NewTabletError_def split: if_splits)

lemma verifyTarget_None_iff:
  "(verifyTarget ctx tgt isTx tsv = None) =
     (case tgt of
        None \<Rightarrow> isLocalContext ctx
      | Some t \<Rightarrow>
          Keyspace t = Keyspace (target tsv) \<and> Shard t = Shard (target tsv) \<and>
          (isTx \<longrightarrow> TabletType (target tsv) = MASTER) \<and>
          (TabletType t = TabletType (target tsv) \<or> TabletType t \<in> set (alsoAllow tsv)))"
  by (cases tgt) (auto simp: inAlsoAllow_set)

lemma verifyTarget_lameduck:
  "verifyTarget ctx tgt isTx (tsv\<lparr>lameduck := l\<rparr>) = verifyTarget ctx tgt isTx tsv"
  by (cases tgt) simp_all

lemma startRequest_fail:
  "fst (startRequest ctx tgt isTx aos tsv) = Some e \<Longrightarrow>
     ErrorCode e = QUERY_NOT_SERVED \<and> snd (startRequest ctx tgt isTx aos tsv) = tsv"
  by (auto simp: startRequest_def NewTabletError_def verifyTarget_code
           split: if_splits option.splits)

lemma startRequest_ok_iff:
  "(fst (startRequest ctx tgt isTx aos tsv) = None) =
     ((state tsv = StateServing \<or> (aos \<and> state tsv = StateShuttingDown)) \<and>
      verifyTarget ctx tgt isTx tsv = None)"
  by (auto simp: startRequest_def split: option.splits)

text \<open>
  C1, as stated, fails. The claim makes admission equivalent to the state gate together
  with the checks on a target that is present, and so admits every request without a
  target. The server refuses a request without a target unless its context is the
  process-local one: a serving server refuses a remote request that carries no target,
  although the condition of the claim (\<open>spec_admitted\<close>) holds for it.
\<close>

theorem startRequest_nil_target_counterexample:
  "spec_admitted fixtureServer None False False \<and>
   fst (startRequest remoteContext None False False fixtureServer) \<noteq> None"
  by (simp add: spec_admitted_def fixtureServer_def remoteContext_def startRequest_def)

text \<open>
  C1, amended: \<^verbatim>\<open>startRequest\<close> admits a request if and only if the state is SERVING,
  or \<open>allowOnShutdown\<close> is set and the state is SHUTTING_DOWN, and either the target is
  absent and the context is process-local, or the target is present, its keyspace and
  shard are the server's, the server's role is MASTER if the request is transactional,
  and the target's role is the server's role or one of the also-allowed roles. Every
  refusal is a QUERY_NOT_SERVED error and leaves the server, and so both counters,
  unchanged.
\<close>

theorem startRequest_admission:
  "((fst (startRequest ctx tgt isTx allowOnShutdown tsv) = None) =
      ((state tsv = StateServing \<or> (allowOnShutdown \<and> state tsv = StateShuttingDown)) \<and>
       (case tgt of
          None \<Rightarrow> isLocalContext ctx
        | Some t \<Rightarrow>
            Keyspace t = Keyspace (target tsv) \<and> Shard t = Shard (target tsv) \<and>
            (isTx \<longrightarrow> TabletType (target tsv) = MASTER) \<and>
            (TabletType t = TabletType (target tsv) \<or> TabletType t \<in> set (alsoAllow tsv))))) \<and>
   (\<forall>e. fst (startRequest ctx tgt isTx allowOnShutdown tsv) = Some e \<longrightarrow>
      ErrorCode e = QUERY_NOT_SERVED \<and>
      snd (startRequest ctx tgt isTx allowOnShutdown tsv) = tsv)"
  using startRequest_fail [of ctx tgt isTx allowOnShutdown tsv]
  by (simp add: startRequest_ok_iff verifyTarget_None_iff)

theorem startRequest_admission_witness:
  "fst (startRequest remoteContext (Some fixtureTarget) True False fixtureServer) = None \<and>
   fst (startRequest remoteContext None True False fixtureServer)
     = Some (NewTabletError QUERY_NOT_SERVED ''No target'') \<and>
   snd (startRequest remoteContext None True False fixtureServer) = fixtureServer"
  using startRequest_admission [of remoteContext "Some fixtureTarget" True False fixtureServer]
        startRequest_admission [of remoteContext None True False fixtureServer]
  by (simp add: fixtureServer_def fixtureTarget_def remoteContext_def startRequest_def)

text \<open>
  C9: under lameduck \<^verbatim>\<open>GetState\<close> answers \<^verbatim>\<open>NOT_SERVING\<close> whatever the state, so
  \<^verbatim>\<open>IsServing\<close> is false; and \<^verbatim>\<open>startRequest\<close> does not read the flag: with any
  value of the flag it returns the same error or admission and makes the same change to
  the server.
\<close>

theorem lameduck_health_only:
  "(lameduck tsv \<noteq> 0 \<longrightarrow> GetState tsv = ''NOT_SERVING'' \<and> \<not> IsServing tsv) \<and>
   startRequest ctx tgt isTx allowOnShutdown (tsv\<lparr>lameduck := l\<rparr>) =
     (fst (startRequest ctx tgt isTx allowOnShutdown tsv),
      (snd (startRequest ctx tgt isTx allowOnShutdown tsv))\<lparr>lameduck := l\<rparr>)"
proof -
  have served: "lameduck tsv \<noteq> 0 \<longrightarrow> GetState tsv = ''NOT_SERVING'' \<and> \<not> IsServing tsv"
    by (simp add: GetState_def IsServing_def)
  have "startRequest ctx tgt isTx allowOnShutdown (tsv\<lparr>lameduck := l\<rparr>) =
     (fst (startRequest ctx tgt isTx allowOnShutdown tsv),
      (snd (startRequest ctx tgt isTx allowOnShutdown tsv))\<lparr>lameduck := l\<rparr>)"
    by (simp add: startRequest_def verifyTarget_lameduck split: option.splits)
  with served show ?thesis by simp
qed

theorem lameduck_health_only_witness:
  "GetState (EnterLameduck fixtureServer) = ''NOT_SERVING'' \<and>
   \<not> IsServing (EnterLameduck fixtureServer) \<and> IsServing fixtureServer \<and>
   fst (startRequest remoteContext (Some fixtureTarget) False False (EnterLameduck fixtureServer))
     = None"
  using lameduck_health_only [where tsv = "EnterLameduck fixtureServer" and ctx = remoteContext
          and tgt = "Some fixtureTarget" and isTx = False and allowOnShutdown = False and l = 0]
  by (simp add: EnterLameduck_def fixtureServer_def fixtureTarget_def remoteContext_def
        startRequest_def GetState_def IsServing_def)

section \<open>Properties of the serving type change\<close>

lemma decideAction_transient:
  "state tsv = StateTransitioning \<or> state tsv = StateShuttingDown \<Longrightarrow>
   decideAction tabletType serving allow tsv =
     ((actionNone, Some (NewTabletError INTERNAL_ERROR
         (''cannot SetServingType, current state: '' @ stateName (state tsv)))),
      tsv\<lparr>alsoAllow := allow, target := (target tsv)\<lparr>TabletType := tabletType\<rparr>\<rparr>)"
  by (auto simp: decideAction_def Let_def)

text \<open>
  C4: in TRANSITIONING and in SHUTTING_DOWN, \<^verbatim>\<open>SetServingType\<close> returns, its
  \<^verbatim>\<open>stateChanged\<close> is false, its error is a tablet error with code INTERNAL_ERROR,
  and the serving state is the one before the call.
\<close>

theorem SetServingType_in_transient_state:
  "state tsv = StateTransitioning \<or> state tsv = StateShuttingDown \<Longrightarrow>
   (\<exists>e tsv'. SetServingType env tabletType serving allow tsv
               = Some ((False, Some (TabletErr e)), tsv') \<and>
            ErrorCode e = INTERNAL_ERROR \<and> state tsv' = state tsv)"
  by (simp add: SetServingType_def decideAction_transient ExitLameduck_def NewTabletError_def)

theorem SetServingType_in_transient_state_witness:
  "SetServingType fixtureEnv REPLICA True [] (fixtureServer\<lparr>state := StateShuttingDown\<rparr>)
     = Some ((False, Some (TabletErr (NewTabletError INTERNAL_ERROR
                ''cannot SetServingType, current state: SHUTTING_DOWN''))),
             fixtureServer\<lparr>state := StateShuttingDown,
                           target := fixtureTarget\<lparr>TabletType := REPLICA\<rparr>\<rparr>)"
  using SetServingType_in_transient_state [of "fixtureServer\<lparr>state := StateShuttingDown\<rparr>"
          fixtureEnv REPLICA True "[]"]
  by (simp add: SetServingType_def decideAction_def ExitLameduck_def Let_def
        fixtureServer_def fixtureTarget_def)

lemma decideAction_same:
  "state tsv = StateServing \<Longrightarrow> TabletType (target tsv) = tabletType \<Longrightarrow>
   decideAction tabletType True allow tsv = ((actionNone, None), tsv\<lparr>alsoAllow := allow\<rparr>)"
  by (simp add: decideAction_def Let_def)

text \<open>
  C5: while SERVING, a call with \<open>serving\<close> true and the current role decides
  \<^verbatim>\<open>actionNone\<close>: it returns \<^verbatim>\<open>(false, nil)\<close> and the state stays SERVING.
\<close>

theorem SetServingType_already_serving:
  "state tsv = StateServing \<Longrightarrow> TabletType (target tsv) = tabletType \<Longrightarrow>
   fst (decideAction tabletType True allow tsv) = (actionNone, None) \<and>
   (\<exists>tsv'. SetServingType env tabletType True allow tsv = Some ((False, None), tsv') \<and>
           state tsv' = StateServing)"
  by (simp add: SetServingType_def decideAction_same ExitLameduck_def)

theorem SetServingType_already_serving_witness:
  "fst (decideAction MASTER True [REPLICA] fixtureServer) = (actionNone, None) \<and>
   SetServingType fixtureEnv MASTER True [REPLICA] fixtureServer
     = Some ((False, None), fixtureServer\<lparr>alsoAllow := [REPLICA]\<rparr>)"
  using SetServingType_already_serving [of fixtureServer MASTER "[REPLICA]" fixtureEnv]
  by (simp add: SetServingType_def decideAction_def ExitLameduck_def Let_def
        fixtureServer_def fixtureTarget_def)

lemma decideAction_counters:
  "requests (snd (decideAction tabletType serving allow tsv)) = requests tsv \<and>
   txRequests (snd (decideAction tabletType serving allow tsv)) = txRequests tsv"
  by (simp add: decideAction_def Let_def setState_def split: ServingState.splits)

lemma serveNewType_returns:
  "txRequests tsv = 0 \<Longrightarrow> serveNewType env tsv \<noteq> None"
  by (simp add: serveNewType_def split: option.splits)

lemma fullStart_returns:
  "txRequests tsv = 0 \<Longrightarrow> fullStart env tsv \<noteq> None"
  using serveNewType_returns [of tsv env]
  by (auto simp: fullStart_def split: option.splits)

lemma gracefulStop_returns:
  "txRequests tsv = 0 \<Longrightarrow> requests tsv = 0 \<Longrightarrow> gracefulStop tsv \<noteq> None"
  by (simp add: gracefulStop_def waitForShutdown_def Let_def split: option.splits)

lemma SetServingType_lameduck:
  "SetServingType env tabletType serving allow tsv = Some (r, tsv') \<Longrightarrow> lameduck tsv' = 0"
  by (auto simp: SetServingType_def ExitLameduck_def
           split: prod.splits option.splits Action.splits)

lemma SetServingType_returns:
  assumes "requests tsv = 0" and "txRequests tsv = 0"
  shows "SetServingType env tabletType serving allow tsv \<noteq> None"
proof -
  obtain a e tsv1 where d: "decideAction tabletType serving allow tsv = ((a, e), tsv1)"
    by (metis surj_pair)
  from decideAction_counters [of tabletType serving allow tsv] d assms
  have c: "requests tsv1 = 0" "txRequests tsv1 = 0" by simp_all
  show ?thesis
    using serveNewType_returns [OF c(2), of env] fullStart_returns [OF c(2), of env]
          gracefulStop_returns [OF c(2) c(1)]
    by (auto simp: SetServingType_def d split: option.splits Action.splits)
qed

text \<open>
  C10: whenever \<^verbatim>\<open>SetServingType\<close> returns, whatever it decided and whether or
  not it failed, the lameduck flag is 0 afterwards. It does return whenever no request
  is outstanding, so the statement is not empty.
\<close>

theorem SetServingType_exits_lameduck:
  "(\<forall>r tsv'. SetServingType env tabletType serving allow tsv = Some (r, tsv') \<longrightarrow>
             lameduck tsv' = 0) \<and>
   (requests tsv = 0 \<and> txRequests tsv = 0 \<longrightarrow>
      SetServingType env tabletType serving allow tsv \<noteq> None)"
  using SetServingType_lameduck [of env tabletType serving allow tsv]
        SetServingType_returns [of tsv env tabletType serving allow]
  by blast

theorem SetServingType_exits_lameduck_witness:
  "lameduck ((EnterLameduck fixtureServer)\<lparr>state := StateNotServing\<rparr>) = 1 \<and>
   SetServingType (fixtureEnv\<lparr>txThrottlerOpen_err := Some (PlainErr ''no throttler'')\<rparr>)
       MASTER True [] ((EnterLameduck fixtureServer)\<lparr>state := StateNotServing\<rparr>)
     = Some ((True, Some (PlainErr ''no throttler'')),
             fixtureServer\<lparr>state := StateNotConnected\<rparr>)"
  using SetServingType_exits_lameduck
          [of "fixtureEnv\<lparr>txThrottlerOpen_err := Some (PlainErr ''no throttler'')\<rparr>"
              MASTER True "[]" "(EnterLameduck fixtureServer)\<lparr>state := StateNotServing\<rparr>"]
  by (simp add: SetServingType_def decideAction_def serveNewType_def closeAll_def
        transition_def setState_def ExitLameduck_def EnterLameduck_def TxEngine_Close_def
        fixtureServer_def fixtureTarget_def fixtureEnv_def fixturePool_def Let_def)

section \<open>Properties of error reporting\<close>


lemma showInt_1062: "showInt 1062 = ''1062''"
  by (simp add: showInt_def showNat.simps digitChar_def)

text \<open>
  C3, as stated, fails. With terse errors on and a bind variable present, an error that
  carries no MySQL error number (here an error that is not a tablet error, which becomes
  an UNKNOWN_ERROR) keeps its message, and that message can hold the value of a bind
  variable: the test \<^verbatim>\<open>terr.SQLError != 0\<close> exempts it from the stripping.
\<close>

theorem handleError_terse_leak_counterexample:
  "length [(''name'', ''secret'')] \<noteq> 0 \<and>
   Message (handleError True ''select id from t where name = :name'' [(''name'', ''secret'')]
     (PlainErr ''strconv.ParseInt: parsing secret: invalid syntax''))
     = ''strconv.ParseInt: parsing secret: invalid syntax'' \<and>
   sublist ''secret'' (Message (handleError True ''select id from t where name = :name''
     [(''name'', ''secret'')] (PlainErr ''strconv.ParseInt: parsing secret: invalid syntax'')))"
  by (simp add: handleError_def NewTabletError_def sublist_code)

text \<open>
  C3, amended: with terse errors on, a non-empty bind-variable map and an error whose
  MySQL error number is not 0, the failover error (number 1227 with the exact failover
  message) is returned as it is, and for every other error the message returned is built
  from the error number, the SQL state and the query text as submitted, and nothing
  else: replacing the original message or the bind variables by others (also non-empty)
  gives the same error.
\<close>

theorem handleError_terse:
  assumes "length bindVariables \<noteq> 0" and "SQLError terr \<noteq> 0"
  shows "(SQLError terr = 1227 \<and> Message terr = failoverMessage \<longrightarrow>
            handleError True sql bindVariables (TabletErr terr) = terr) \<and>
         (\<not> (SQLError terr = 1227 \<and> Message terr = failoverMessage) \<longrightarrow>
            Message (handleError True sql bindVariables (TabletErr terr)) =
              ''(errno '' @ showInt (SQLError terr) @ '') (sqlstate '' @ SQLState terr
                @ '') during query: '' @ sql \<and>
            (\<forall>bv' m'. length bv' \<noteq> 0 \<and> \<not> (SQLError terr = 1227 \<and> m' = failoverMessage) \<longrightarrow>
               handleError True sql bv' (TabletErr (terr\<lparr>Message := m'\<rparr>)) =
               handleError True sql bindVariables (TabletErr terr)))"
  using assms by (simp add: handleError_def Let_def)

theorem handleError_terse_witness:
  "handleError True ''insert into t values (:name)'' [(''name'', ''secret'')]
     (TabletErr \<lparr>Message = ''Duplicate entry secret for key PRIMARY (errno 1062) (sqlstate 23000)'',
                 SQLError = 1062, SQLState = ''23000'', ErrorCode = INTEGRITY_ERROR\<rparr>)
   = \<lparr>Message = ''(errno 1062) (sqlstate 23000) during query: insert into t values (:name)'',
      SQLError = 1062, SQLState = ''23000'', ErrorCode = INTEGRITY_ERROR\<rparr> \<and>
   handleError True ''insert into t values (:name)'' [(''name'', ''secret'')]
     (TabletErr \<lparr>Message = failoverMessage, SQLError = 1227, SQLState = ''42000'',
                 ErrorCode = INTERNAL_ERROR\<rparr>)
   = \<lparr>Message = failoverMessage, SQLError = 1227, SQLState = ''42000'',
      ErrorCode = INTERNAL_ERROR\<rparr>"
  using handleError_terse [of "[(''name'', ''secret'')]"
          "\<lparr>Message = ''Duplicate entry secret for key PRIMARY (errno 1062) (sqlstate 23000)'',
            SQLError = 1062, SQLState = ''23000'', ErrorCode = INTEGRITY_ERROR\<rparr>"
          "''insert into t values (:name)''"]
        handleError_terse [of "[(''name'', ''secret'')]"
          "\<lparr>Message = failoverMessage, SQLError = 1227, SQLState = ''42000'',
            ErrorCode = INTERNAL_ERROR\<rparr>"
          "''insert into t values (:name)''"]
  by (simp add: handleError_def showInt_1062 failoverMessage_def)

section \<open>Properties of the health broadcast\<close>

lemma broadcastLoop_length: "length (broadcastLoop shr m) = length m"
  by (induction shr m rule: broadcastLoop.induct) simp_all

lemma broadcastLoop_nth:
  "i < length m \<Longrightarrow> broadcastLoop shr m ! i = (fst (m ! i), trySend shr (snd (m ! i)))"
proof (induction shr m arbitrary: i rule: broadcastLoop.induct)
  case (1 shr)
  then show ?case by simp
next
  case (2 shr sid c rest)
  then show ?case by (cases i) simp_all
qed

lemma map_of_mapAssign: "map_of (mapAssign k v m) k = Some v"
  by (induction k v m rule: mapAssign.induct) simp_all

lemma set_mapAssign: "set (mapAssign k v m) \<subseteq> insert (k, v) (set m)"
  by (induction k v m rule: mapAssign.induct) auto

lemma trySend_bounds:
  "cap c = 10 \<and> length (buf c) \<le> 10 \<Longrightarrow>
   cap (trySend shr c) = 10 \<and> length (buf (trySend shr c)) \<le> 10"
  by (simp add: trySend_def)

lemma broadcastLoop_bounds:
  "\<forall>kc \<in> set m. cap (snd kc) = 10 \<and> length (buf (snd kc)) \<le> 10 \<Longrightarrow>
   \<forall>kc \<in> set (broadcastLoop shr m). cap (snd kc) = 10 \<and> length (buf (snd kc)) \<le> 10"
  by (induction shr m rule: broadcastLoop.induct) (simp_all add: trySend_bounds)

lemma register_bounds:
  assumes "\<forall>kc \<in> set (streamHealthMap tsv). cap (snd kc) = 10 \<and> length (buf (snd kc)) \<le> 10"
  shows "\<forall>kc \<in> set (streamHealthMap (snd (streamHealthRegister tsv))).
           cap (snd kc) = 10 \<and> length (buf (snd kc)) \<le> 10"
  using assms set_mapAssign [of "streamHealthIndex tsv" "\<lparr>buf = [], cap = 10\<rparr>" "streamHealthMap tsv"]
  by (auto simp: streamHealthRegister_def Let_def)

text \<open>
  C8: a broadcast stores the snapshot it built as the last known one; it keeps the
  subscribers, their ids and their capacities; a subscriber whose buffer has room gets
  the snapshot appended to its buffer, and one whose buffer is full keeps its channel
  as it was. The broadcast is a total function, one step per subscriber, so it returns
  whatever the buffers hold. A channel made by \<^verbatim>\<open>streamHealthRegister\<close> is empty,
  has capacity 10 and is stored under the id returned; and if every subscriber has
  capacity 10 and at most 10 queued snapshots, that is still so after a registration
  and after a broadcast.
\<close>

theorem BroadcastHealth_fanout:
  "lastStreamHealthResponse (BroadcastHealth terTimestamp stats tsv)
     = Some (healthSnapshot terTimestamp stats tsv) \<and>
   length (streamHealthMap (BroadcastHealth terTimestamp stats tsv))
     = length (streamHealthMap tsv) \<and>
   (\<forall>i < length (streamHealthMap tsv).
      fst (streamHealthMap (BroadcastHealth terTimestamp stats tsv) ! i)
        = fst (streamHealthMap tsv ! i) \<and>
      cap (snd (streamHealthMap (BroadcastHealth terTimestamp stats tsv) ! i))
        = cap (snd (streamHealthMap tsv ! i)) \<and>
      (length (buf (snd (streamHealthMap tsv ! i))) < cap (snd (streamHealthMap tsv ! i)) \<longrightarrow>
         buf (snd (streamHealthMap (BroadcastHealth terTimestamp stats tsv) ! i))
           = buf (snd (streamHealthMap tsv ! i)) @ [healthSnapshot terTimestamp stats tsv]) \<and>
      (cap (snd (streamHealthMap tsv ! i)) \<le> length (buf (snd (streamHealthMap tsv ! i))) \<longrightarrow>
         snd (streamHealthMap (BroadcastHealth terTimestamp stats tsv) ! i)
           = snd (streamHealthMap tsv ! i))) \<and>
   fst (streamHealthRegister tsv) = (streamHealthIndex tsv, \<lparr>buf = [], cap = 10\<rparr>) \<and>
   map_of (streamHealthMap (snd (streamHealthRegister tsv))) (streamHealthIndex tsv)
     = Some \<lparr>buf = [], cap = 10\<rparr> \<and>
   ((\<forall>kc \<in> set (streamHealthMap tsv). cap (snd kc) = 10 \<and> length (buf (snd kc)) \<le> 10) \<longrightarrow>
      (\<forall>kc \<in> set (streamHealthMap (snd (streamHealthRegister tsv))).
         cap (snd kc) = 10 \<and> length (buf (snd kc)) \<le> 10) \<and>
      (\<forall>kc \<in> set (streamHealthMap (BroadcastHealth terTimestamp stats tsv)).
         cap (snd kc) = 10 \<and> length (buf (snd kc)) \<le> 10))"
proof -
  have last: "lastStreamHealthResponse (BroadcastHealth terTimestamp stats tsv)
     = Some (healthSnapshot terTimestamp stats tsv)"
    by (simp add: BroadcastHealth_def Let_def)
  have len: "length (streamHealthMap (BroadcastHealth terTimestamp stats tsv))
     = length (streamHealthMap tsv)"
    by (simp add: BroadcastHealth_def Let_def broadcastLoop_length)
  have each: "\<forall>i < length (streamHealthMap tsv).
      fst (streamHealthMap (BroadcastHealth terTimestamp stats tsv) ! i)
        = fst (streamHealthMap tsv ! i) \<and>
      cap (snd (streamHealthMap (BroadcastHealth terTimestamp stats tsv) ! i))
        = cap (snd (streamHealthMap tsv ! i)) \<and>
      (length (buf (snd (streamHealthMap tsv ! i))) < cap (snd (streamHealthMap tsv ! i)) \<longrightarrow>
         buf (snd (streamHealthMap (BroadcastHealth terTimestamp stats tsv) ! i))
           = buf (snd (streamHealthMap tsv ! i)) @ [healthSnapshot terTimestamp stats tsv]) \<and>
      (cap (snd (streamHealthMap tsv ! i)) \<le> length (buf (snd (streamHealthMap tsv ! i))) \<longrightarrow>
         snd (streamHealthMap (BroadcastHealth terTimestamp stats tsv) ! i)
           = snd (streamHealthMap tsv ! i))"
    by (simp add: BroadcastHealth_def Let_def broadcastLoop_nth trySend_def)
  have reg: "fst (streamHealthRegister tsv) = (streamHealthIndex tsv, \<lparr>buf = [], cap = 10\<rparr>)"
    by (simp add: streamHealthRegister_def Let_def)
  have stored: "map_of (streamHealthMap (snd (streamHealthRegister tsv))) (streamHealthIndex tsv)
     = Some \<lparr>buf = [], cap = 10\<rparr>"
    by (simp add: streamHealthRegister_def Let_def map_of_mapAssign)
  have bounds: "(\<forall>kc \<in> set (streamHealthMap tsv). cap (snd kc) = 10 \<and> length (buf (snd kc)) \<le> 10) \<longrightarrow>
      (\<forall>kc \<in> set (streamHealthMap (snd (streamHealthRegister tsv))).
         cap (snd kc) = 10 \<and> length (buf (snd kc)) \<le> 10) \<and>
      (\<forall>kc \<in> set (streamHealthMap (BroadcastHealth terTimestamp stats tsv)).
         cap (snd kc) = 10 \<and> length (buf (snd kc)) \<le> 10)"
  proof
    assume inv: "\<forall>kc \<in> set (streamHealthMap tsv). cap (snd kc) = 10 \<and> length (buf (snd kc)) \<le> 10"
    have "streamHealthMap (BroadcastHealth terTimestamp stats tsv)
            = broadcastLoop (healthSnapshot terTimestamp stats tsv) (streamHealthMap tsv)"
      by (simp add: BroadcastHealth_def Let_def)
    with register_bounds [OF inv] broadcastLoop_bounds [OF inv]
    show "(\<forall>kc \<in> set (streamHealthMap (snd (streamHealthRegister tsv))).
         cap (snd kc) = 10 \<and> length (buf (snd kc)) \<le> 10) \<and>
      (\<forall>kc \<in> set (streamHealthMap (BroadcastHealth terTimestamp stats tsv)).
         cap (snd kc) = 10 \<and> length (buf (snd kc)) \<le> 10)"
      by simp
  qed
  from last len each reg stored bounds show ?thesis
    by (intro conjI) assumption+
qed

theorem BroadcastHealth_fanout_witness:
  "streamHealthMap (BroadcastHealth 7 ''stats'' fixtureSubscribed)
     = [(0, \<lparr>buf = [healthSnapshot 7 ''stats'' fixtureSubscribed], cap = 10\<rparr>),
        (1, \<lparr>buf = replicate 10 fixtureSnapshot, cap = 10\<rparr>)] \<and>
   lastStreamHealthResponse (BroadcastHealth 7 ''stats'' fixtureSubscribed)
     = Some (healthSnapshot 7 ''stats'' fixtureSubscribed)"
  using BroadcastHealth_fanout [of 7 "''stats''" fixtureSubscribed]
  by (simp add: BroadcastHealth_def fixtureSubscribed_def trySend_def Let_def)

section \<open>Properties of running a request\<close>

lemma verifyTarget_cong:
  "target a = target b \<Longrightarrow> alsoAllow a = alsoAllow b \<Longrightarrow>
   verifyTarget ctx tgt isTx a = verifyTarget ctx tgt isTx b"
  by (cases tgt) simp_all

lemma admitted_cong:
  "state a = state b \<Longrightarrow> target a = target b \<Longrightarrow> alsoAllow a = alsoAllow b \<Longrightarrow>
   (fst (startRequest ctx tgt isTx aos a) = None) = (fst (startRequest ctx tgt isTx aos b) = None)"
  using verifyTarget_cong [of a b ctx tgt isTx]
  by (simp add: startRequest_ok_iff)

lemma admitted_weaken:
  "fst (startRequest ctx tgt True False tsv) = None \<Longrightarrow>
   fst (startRequest ctx tgt isTx aos tsv) = None"
  by (cases tgt) (auto simp: startRequest_ok_iff split: if_splits)

lemma endRequest_startRequest:
  "startRequest ctx tgt isTx aos tsv = (None, tsv1) \<Longrightarrow>
   endRequest isTx (tsv1\<lparr>txPool := p\<rparr>) = tsv\<lparr>txPool := p\<rparr>"
  by (auto simp: startRequest_def endRequest_def split: if_splits option.splits)

lemma execRequest_admitted:
  assumes "fst (startRequest ctx tgt isTx aos tsv) = None"
  shows "execRequest env ctx sql bv tgt isTx aos exec tsv =
           (outcomeResult env sql bv (fst (exec (txPool tsv))),
            tsv\<lparr>txPool := snd (exec (txPool tsv))\<rparr>)"
proof -
  obtain tsv1 where sr: "startRequest ctx tgt isTx aos tsv = (None, tsv1)"
    using assms by (cases "startRequest ctx tgt isTx aos tsv") auto
  have pool: "txPool tsv1 = txPool tsv"
    using sr by (auto simp: startRequest_def split: if_splits option.splits)
  show ?thesis
    by (simp add: execRequest_def sr pool endRequest_startRequest [OF sr] split: prod.splits)
qed

lemma execRequest_refused:
  assumes "fst (startRequest ctx tgt isTx aos tsv) = Some e"
  shows "execRequest env ctx sql bv tgt isTx aos exec tsv = (Inl e, tsv)"
proof -
  from startRequest_fail [OF assms] assms
  have "startRequest ctx tgt isTx aos tsv = (Some e, tsv)"
    by (cases "startRequest ctx tgt isTx aos tsv") simp
  then show ?thesis by (simp add: execRequest_def)
qed

lemma execRequest_frame:
  "\<exists>p. snd (execRequest env ctx sql bv tgt isTx aos exec tsv) = tsv\<lparr>txPool := p\<rparr>"
proof (cases "fst (startRequest ctx tgt isTx aos tsv)")
  case None
  then show ?thesis by (auto simp add: execRequest_admitted)
next
  case (Some e)
  then have "snd (execRequest env ctx sql bv tgt isTx aos exec tsv) = tsv\<lparr>txPool := txPool tsv\<rparr>"
    by (simp add: execRequest_refused)
  then show ?thesis by blast
qed

section \<open>Properties of the split validation\<close>












section \<open>Properties of requests during the drain\<close>










section \<open>Properties of batches\<close>

lemma handleError_batch: "handleError terse sql [] (TabletErr e) = e"
  by (simp add: handleError_def)

lemma Execute_admitted:
  assumes "fst (startRequest ctx tgt False (transactionID \<noteq> 0) tsv) = None"
  shows "Execute env ctx tgt sql bv transactionID tsv =
           (outcomeResult env sql bv (fst (qreExecute env sql bv transactionID (txPool tsv))),
            tsv\<lparr>txPool := snd (qreExecute env sql bv transactionID (txPool tsv))\<rparr>)"
  by (simp add: Execute_def execRequest_admitted [OF assms])

lemma admitted_pool:
  "(fst (startRequest ctx tgt isTx aos (tsv\<lparr>txPool := p\<rparr>)) = None)
     = (fst (startRequest ctx tgt isTx aos tsv) = None)"
  by (rule admitted_cong) simp_all

lemma executeLoop_first_failure:
  assumes adm: "fst (startRequest ctx tgt False (transactionID \<noteq> 0) tsv) = None"
      and ok: "\<forall>b \<in> set passed. \<forall>p. \<exists>r.
                 fst (qreExecute env (Sql b) (BindVariables b) transactionID p) = Ok r"
      and bad: "\<forall>p. fst (qreExecute env (Sql q) (BindVariables q) transactionID p) = out"
      and out: "outcomeResult env (Sql q) (BindVariables q) out = Inl e"
  shows "\<exists>p. executeLoop env ctx tgt (passed @ q # rest) transactionID results tsv =
           (Inl e, tsv\<lparr>txPool := p\<rparr>)"
  using adm ok
proof (induction passed arbitrary: tsv results)
  case Nil
  then show ?case
    by (auto simp add: Execute_admitted bad out handleError_batch)
next
  case (Cons b bs)
  let ?p = "snd (qreExecute env (Sql b) (BindVariables b) transactionID (txPool tsv))"
  from Cons.prems(2) obtain r
    where r: "fst (qreExecute env (Sql b) (BindVariables b) transactionID (txPool tsv)) = Ok r"
    by (meson list.set_intros(1))
  have adm': "fst (startRequest ctx tgt False (transactionID \<noteq> 0) (tsv\<lparr>txPool := ?p\<rparr>)) = None"
    using Cons.prems(1) by (simp add: admitted_pool)
  from Cons.prems(2)
  have ok': "\<forall>b \<in> set bs. \<forall>p. \<exists>r.
               fst (qreExecute env (Sql b) (BindVariables b) transactionID p) = Ok r"
    by simp
  from Cons.IH [OF adm' ok', of "results @ [r]"]
  obtain p' where "executeLoop env ctx tgt (bs @ q # rest) transactionID (results @ [r])
                     (tsv\<lparr>txPool := ?p\<rparr>) =
           (Inl e, tsv\<lparr>txPool := ?p, txPool := p'\<rparr>)"
    by blast
  then show ?case
    by (auto simp add: Execute_admitted [OF Cons.prems(1)] r)
qed

text \<open>When the queries leave the pool as it is, so does the loop.\<close>

lemma executeLoop_first_failure_same_pool:
  assumes adm: "fst (startRequest ctx tgt False (transactionID \<noteq> 0) tsv) = None"
      and ok: "\<forall>b \<in> set passed. \<forall>p. \<exists>r.
                 fst (qreExecute env (Sql b) (BindVariables b) transactionID p) = Ok r"
      and bad: "\<forall>p. fst (qreExecute env (Sql q) (BindVariables q) transactionID p) = out"
      and out: "outcomeResult env (Sql q) (BindVariables q) out = Inl e"
      and keep: "\<forall>b \<in> set (passed @ [q]). \<forall>p.
                   snd (qreExecute env (Sql b) (BindVariables b) transactionID p) = p"
  shows "executeLoop env ctx tgt (passed @ q # rest) transactionID results tsv = (Inl e, tsv)"
  using ok keep
proof (induction passed arbitrary: results)
  case Nil
  then show ?case
    by (simp add: Execute_admitted [OF adm] bad out handleError_batch)
next
  case (Cons b bs)
  from Cons.prems(1) obtain r
    where r: "fst (qreExecute env (Sql b) (BindVariables b) transactionID (txPool tsv)) = Ok r"
    by (meson list.set_intros(1))
  from Cons.prems(2)
  have same: "snd (qreExecute env (Sql b) (BindVariables b) transactionID (txPool tsv)) = txPool tsv"
    by simp
  from Cons.prems
  have "executeLoop env ctx tgt (bs @ q # rest) transactionID (results @ [r]) tsv = (Inl e, tsv)"
    by (intro Cons.IH) simp_all
  then show ?case
    by (simp add: Execute_admitted [OF adm] r same)
qed

lemma beginExec_room:
  "\<not> Throttle env \<Longrightarrow> length (activeTx p) < txCapacity p \<Longrightarrow>
   beginExec env p =
     (Ok (int (lastID p) + 1),
      p\<lparr>activeTx := activeTx p @ [int (lastID p) + 1], lastID := lastID p + 1\<rparr>)"
  by (simp add: beginExec_def TxPool_Begin_def Let_def)

lemma rollbackExec_pool: "snd (rollbackExec t p) = snd (TxPool_Rollback t p)"
  by (simp add: rollbackExec_def split: prod.splits option.splits)

lemma TxPool_Rollback_gone: "t \<notin> set (activeTx (snd (TxPool_Rollback t p)))"
  by (simp add: TxPool_Rollback_def)

lemma executeLoop_frame:
  "\<exists>p. snd (executeLoop env ctx tgt queries transactionID results tsv) = tsv\<lparr>txPool := p\<rparr>"
proof (induction queries arbitrary: results tsv)
  case Nil
  have "tsv = tsv\<lparr>txPool := txPool tsv\<rparr>" by simp
  then show ?case by (metis executeLoop.simps(1) snd_conv)
next
  case (Cons b bs)
  obtain r tsv1 where ex: "Execute env ctx tgt (Sql b) (BindVariables b) transactionID tsv = (r, tsv1)"
    by (cases "Execute env ctx tgt (Sql b) (BindVariables b) transactionID tsv") auto
  from execRequest_frame [of env ctx "Sql b" "BindVariables b" tgt False "transactionID \<noteq> 0"
         "qreExecute env (Sql b) (BindVariables b) transactionID" tsv] ex
  obtain p1 where p1: "tsv1 = tsv\<lparr>txPool := p1\<rparr>"
    by (auto simp: Execute_def)
  show ?case
  proof (cases r)
    case (Inl e)
    with ex p1 show ?thesis by auto
  next
    case (Inr localReply)
    from Cons.IH [of "results @ [localReply]" tsv1]
    obtain p2 where "snd (executeLoop env ctx tgt bs transactionID (results @ [localReply]) tsv1)
                       = tsv1\<lparr>txPool := p2\<rparr>"
      by blast
    with ex p1 Inr show ?thesis by auto
  qed
qed

text \<open>The step of a transactional batch up to the loop: admission, then \<^verbatim>\<open>Begin\<close>.\<close>

lemma batch_admitted:
  assumes adm: "fst (startRequest ctx tgt True False tsv) = None"
  shows "startRequest ctx tgt False False tsv = (None, tsv\<lparr>requests := requests tsv + 1\<rparr>)"
proof -
  have "fst (startRequest ctx tgt False False tsv) = None"
    using adm by (rule admitted_weaken)
  then show ?thesis
    by (auto simp: startRequest_def split: if_splits option.splits)
qed

lemma batch_Begin:
  assumes adm: "fst (startRequest ctx tgt True False tsv) = None"
      and thr: "\<not> Throttle env"
      and room: "length (activeTx (txPool tsv)) < txCapacity (txPool tsv)"
  shows "Begin env ctx tgt (tsv\<lparr>requests := requests tsv + 1\<rparr>) =
           (Inr (int (lastID (txPool tsv)) + 1),
            tsv\<lparr>requests := requests tsv + 1,
                txPool := (txPool tsv)
                  \<lparr>activeTx := activeTx (txPool tsv) @ [int (lastID (txPool tsv)) + 1],
                   lastID := lastID (txPool tsv) + 1\<rparr>\<rparr>)"
proof -
  have "fst (startRequest ctx tgt True False (tsv\<lparr>requests := requests tsv + 1\<rparr>)) = None"
    using adm admitted_cong [of "tsv\<lparr>requests := requests tsv + 1\<rparr>" tsv ctx tgt True False]
    by simp
  then show ?thesis
    by (simp add: Begin_def execRequest_admitted beginExec_room [OF thr] room)
qed

lemma ExecuteBatch_loop_failure:
  assumes adm: "fst (startRequest ctx tgt True False tsv) = None"
      and thr: "\<not> Throttle env"
      and room: "length (activeTx (txPool tsv)) < txCapacity (txPool tsv)"
      and ne: "queries \<noteq> []"
      and loop: "fst (executeLoop env ctx tgt queries (int (lastID (txPool tsv)) + 1) []
                       (snd (Begin env ctx tgt (snd (startRequest ctx tgt False False tsv))))) = Inl e"
  shows "ExecuteBatch env ctx tgt queries True 0 tsv =
           (Inl e, tsv\<lparr>txPool := snd (TxPool_Rollback (int (lastID (txPool tsv)) + 1)
              (txPool (snd (executeLoop env ctx tgt queries (int (lastID (txPool tsv)) + 1) []
                 (snd (Begin env ctx tgt (snd (startRequest ctx tgt False False tsv))))))))\<rparr>)"
proof -
  define txid where "txid = int (lastID (txPool tsv)) + 1"
  define tsv1 where "tsv1 = tsv\<lparr>requests := requests tsv + 1\<rparr>"
  define tsvB where "tsvB = snd (Begin env ctx tgt tsv1)"
  have nz: "txid \<noteq> 0" by (simp add: txid_def)
  have sr: "startRequest ctx tgt False False tsv = (None, tsv1)"
    unfolding tsv1_def by (rule batch_admitted [OF adm])
  have same: "state tsv1 = state tsv" "target tsv1 = target tsv" "alsoAllow tsv1 = alsoAllow tsv"
    by (simp_all add: tsv1_def)
  have adm1: "fst (startRequest ctx tgt isTx aos (tsv1\<lparr>txPool := p\<rparr>)) = None" for isTx aos p
    using admitted_weaken [OF adm, of isTx aos]
          admitted_cong [of "tsv1\<lparr>txPool := p\<rparr>" tsv ctx tgt isTx aos]
    by (simp add: same)
  have bg: "Begin env ctx tgt tsv1 = (Inr txid, tsvB)"
    using batch_Begin [OF adm thr room] by (simp add: tsvB_def tsv1_def txid_def)
  from execRequest_frame [of env ctx "''begin''" "[]" tgt True False "beginExec env" tsv1]
  obtain p1 where tB: "tsvB = tsv1\<lparr>txPool := p1\<rparr>"
    by (auto simp: Begin_def tsvB_def)
  from loop have l1: "fst (executeLoop env ctx tgt queries txid [] tsvB) = Inl e"
    by (simp add: sr tsvB_def txid_def)
  from executeLoop_frame [of env ctx tgt queries txid "[]" tsvB] tB
  obtain p2 where fr: "snd (executeLoop env ctx tgt queries txid [] tsvB) = tsv1\<lparr>txPool := p2\<rparr>"
    by auto
  with l1 have lp: "executeLoop env ctx tgt queries txid [] tsvB = (Inl e, tsv1\<lparr>txPool := p2\<rparr>)"
    by (metis prod.collapse)
  from fr have p2: "txPool (snd (executeLoop env ctx tgt queries txid [] tsvB)) = p2"
    by simp
  define p3 where "p3 = snd (TxPool_Rollback txid p2)"
  have rb: "deferredRollback env ctx tgt txid (tsv1\<lparr>txPool := p2\<rparr>) = tsv1\<lparr>txPool := p3\<rparr>"
    by (simp add: deferredRollback_def nz Rollback_def execRequest_admitted [OF adm1]
          rollbackExec_pool p3_def)
  have body: "batchBody env ctx tgt queries True 0 tsv1 = (Inl e, tsv1\<lparr>txPool := p3\<rparr>)"
    by (simp add: batchBody_def bg lp rb)
  have "ExecuteBatch env ctx tgt queries True 0 tsv = (Inl e, tsv\<lparr>txPool := p3\<rparr>)"
    using ne by (simp add: ExecuteBatch_def sr body endRequest_startRequest [OF sr])
  then show ?thesis
    by (simp add: p3_def p2 [symmetric] tsvB_def sr txid_def)
qed

lemma batch_loop_state:
  assumes adm: "fst (startRequest ctx tgt True False tsv) = None"
      and thr: "\<not> Throttle env"
      and room: "length (activeTx (txPool tsv)) < txCapacity (txPool tsv)"
  shows "snd (Begin env ctx tgt (snd (startRequest ctx tgt False False tsv))) =
           tsv\<lparr>requests := requests tsv + 1,
               txPool := (txPool tsv)
                 \<lparr>activeTx := activeTx (txPool tsv) @ [int (lastID (txPool tsv)) + 1],
                  lastID := lastID (txPool tsv) + 1\<rparr>\<rparr>"
  by (simp add: batch_admitted [OF adm] batch_Begin [OF adm thr room])

lemma ExecuteBatch_failing_query:
  assumes adm: "fst (startRequest ctx tgt True False tsv) = None"
      and thr: "\<not> Throttle env"
      and room: "length (activeTx (txPool tsv)) < txCapacity (txPool tsv)"
      and ok: "\<forall>b \<in> set passed. \<forall>p. \<exists>r.
                 fst (qreExecute env (Sql b) (BindVariables b) (int (lastID (txPool tsv)) + 1) p) = Ok r"
      and bad: "\<forall>p. fst (qreExecute env (Sql q) (BindVariables q)
                          (int (lastID (txPool tsv)) + 1) p) = out"
      and out: "outcomeResult env (Sql q) (BindVariables q) out = Inl e"
  shows "\<exists>p. ExecuteBatch env ctx tgt (passed @ q # rest) True 0 tsv = (Inl e, tsv\<lparr>txPool := p\<rparr>) \<and>
             int (lastID (txPool tsv)) + 1 \<notin> set (activeTx p)"
proof -
  define tsvB where "tsvB = snd (Begin env ctx tgt (snd (startRequest ctx tgt False False tsv)))"
  have sB: "state tsvB = state tsv" "target tsvB = target tsv" "alsoAllow tsvB = alsoAllow tsv"
    by (simp_all add: tsvB_def batch_loop_state [OF adm thr room])
  have admB: "fst (startRequest ctx tgt False (int (lastID (txPool tsv)) + 1 \<noteq> 0) tsvB) = None"
    using admitted_weaken [OF adm, where isTx = False and aos = "int (lastID (txPool tsv)) + 1 \<noteq> 0"]
          admitted_cong [OF sB, where ctx = ctx and tgt = tgt and isTx = False
            and aos = "int (lastID (txPool tsv)) + 1 \<noteq> 0"]
    by simp
  from executeLoop_first_failure [OF admB ok bad out, where rest = rest and results = "[]"]
  have "fst (executeLoop env ctx tgt (passed @ q # rest) (int (lastID (txPool tsv)) + 1) [] tsvB) = Inl e"
    by auto
  then have "ExecuteBatch env ctx tgt (passed @ q # rest) True 0 tsv =
           (Inl e, tsv\<lparr>txPool := snd (TxPool_Rollback (int (lastID (txPool tsv)) + 1)
              (txPool (snd (executeLoop env ctx tgt (passed @ q # rest)
                 (int (lastID (txPool tsv)) + 1) [] tsvB))))\<rparr>)"
    unfolding tsvB_def
    by (intro ExecuteBatch_loop_failure [OF adm thr room]) simp_all
  then show ?thesis
    using TxPool_Rollback_gone by blast
qed

lemma ExecuteBatch_failing_query_exact:
  assumes adm: "fst (startRequest ctx tgt True False tsv) = None"
      and thr: "\<not> Throttle env"
      and room: "length (activeTx (txPool tsv)) < txCapacity (txPool tsv)"
      and ok: "\<forall>b \<in> set passed. \<forall>p. \<exists>r.
                 fst (qreExecute env (Sql b) (BindVariables b) (int (lastID (txPool tsv)) + 1) p) = Ok r"
      and bad: "\<forall>p. fst (qreExecute env (Sql q) (BindVariables q)
                          (int (lastID (txPool tsv)) + 1) p) = out"
      and out: "outcomeResult env (Sql q) (BindVariables q) out = Inl e"
      and keep: "\<forall>b \<in> set (passed @ [q]). \<forall>p.
                   snd (qreExecute env (Sql b) (BindVariables b)
                          (int (lastID (txPool tsv)) + 1) p) = p"
  shows "ExecuteBatch env ctx tgt (passed @ q # rest) True 0 tsv =
           (Inl e, tsv\<lparr>txPool := (txPool tsv)
              \<lparr>activeTx := filter (\<lambda>i. i \<noteq> int (lastID (txPool tsv)) + 1) (activeTx (txPool tsv)),
               lastID := lastID (txPool tsv) + 1,
               rolledBack := rolledBack (txPool tsv) @ [int (lastID (txPool tsv)) + 1]\<rparr>\<rparr>)"
proof -
  define txid where "txid = int (lastID (txPool tsv)) + 1"
  define tsvB where "tsvB = snd (Begin env ctx tgt (snd (startRequest ctx tgt False False tsv)))"
  define p1 where "p1 = (txPool tsv)\<lparr>activeTx := activeTx (txPool tsv) @ [txid],
                                      lastID := lastID (txPool tsv) + 1\<rparr>"
  have tB: "tsvB = tsv\<lparr>requests := requests tsv + 1, txPool := p1\<rparr>"
    by (simp add: tsvB_def p1_def txid_def batch_loop_state [OF adm thr room])
  have sB: "state tsvB = state tsv" "target tsvB = target tsv" "alsoAllow tsvB = alsoAllow tsv"
    by (simp_all add: tB)
  have admB: "fst (startRequest ctx tgt False (txid \<noteq> 0) tsvB) = None"
    using admitted_weaken [OF adm, where isTx = False and aos = "txid \<noteq> 0"]
          admitted_cong [OF sB, where ctx = ctx and tgt = tgt and isTx = False
            and aos = "txid \<noteq> 0"]
    by simp
  have lp: "executeLoop env ctx tgt (passed @ q # rest) txid [] tsvB = (Inl e, tsvB)"
    by (rule executeLoop_first_failure_same_pool
              [OF admB ok [folded txid_def] bad [folded txid_def] out keep [folded txid_def]])
  have "ExecuteBatch env ctx tgt (passed @ q # rest) True 0 tsv =
          (Inl e, tsv\<lparr>txPool := snd (TxPool_Rollback txid (txPool (snd
             (executeLoop env ctx tgt (passed @ q # rest) txid [] tsvB))))\<rparr>)"
    unfolding tsvB_def txid_def
    by (intro ExecuteBatch_loop_failure [OF adm thr room])
       (simp_all add: lp [unfolded tsvB_def txid_def])
  then have "ExecuteBatch env ctx tgt (passed @ q # rest) True 0 tsv =
          (Inl e, tsv\<lparr>txPool := snd (TxPool_Rollback txid p1)\<rparr>)"
    using lp by (simp add: tB)
  moreover have "snd (TxPool_Rollback txid p1) =
     (txPool tsv)\<lparr>activeTx := filter (\<lambda>i. i \<noteq> txid) (activeTx (txPool tsv)),
                   lastID := lastID (txPool tsv) + 1,
                   rolledBack := rolledBack (txPool tsv) @ [txid]\<rparr>"
    by (simp add: TxPool_Rollback_def p1_def)
  ultimately show ?thesis
    by (simp add: txid_def)
qed

text \<open>
  A batch whose queries all succeed is committed, not rolled back: the pool tells the
  two apart.
\<close>

lemma ExecuteBatch_success_example:
  "ExecuteBatch fixtureEnv remoteContext (Some fixtureTarget)
       [\<lparr>Sql = ''insert into t values (1)'', BindVariables = []\<rparr>,
        \<lparr>Sql = ''insert into t values (2)'', BindVariables = []\<rparr>] True 0 fixtureServer
     = (Inr [fixtureResult, fixtureResult],
        fixtureServer\<lparr>txPool := \<lparr>activeTx = [], lastID = 1, txCapacity = 3,
                                    committed = [1], rolledBack = []\<rparr>\<rparr>)"
  by (simp add: ExecuteBatch_def batchBody_def Begin_def Commit_def Rollback_def Execute_def
        execRequest_def startRequest_def endRequest_def deferredRollback_def
        beginExec_def commitExec_def TxPool_Begin_def TxPool_Commit_def
        handleError_def NewTabletError_def Let_def
        fixtureEnv_def fixtureServer_def fixtureTarget_def fixturePool_def remoteContext_def)

text \<open>
  C6: \<^verbatim>\<open>ExecuteBatch\<close> returns BAD_INPUT for an empty query list, and BAD_INPUT when
  \<open>asTransaction\<close> is set together with a transaction id other than 0, in both cases
  without touching the server. When \<open>asTransaction\<close> is set, the batch is admitted,
  the throttler lets it pass and the pool has room, the batch opens a transaction: its
  \<^verbatim>\<open>Begin\<close> returns the pool's next identifier and makes it active. If the loop over
  the queries then ends with an error, the batch returns that error and the last thing
  done to the pool is the rollback of that transaction, applied to the pool as the loop
  left it; nothing else in the server changes, the two counters included. In
  particular, when the queries before \<open>q\<close> succeed and \<open>q\<close> fails, the error returned
  is the one of \<open>q\<close> as \<^verbatim>\<open>Execute\<close> reports it and the transaction is no longer
  active; and when moreover these queries leave the pool as it is, the pool after the
  batch is the pool before it with the identifier used up and the transaction recorded
  as rolled back, and nothing committed.
\<close>

theorem ExecuteBatch_errors:
  "ExecuteBatch env ctx tgt [] asTransaction transactionID tsv
     = (Inl (NewTabletError BAD_INPUT ''Empty query list''), tsv) \<and>
   (asTransaction \<and> transactionID \<noteq> 0 \<longrightarrow>
      (\<exists>e. ExecuteBatch env ctx tgt queries asTransaction transactionID tsv = (Inl e, tsv) \<and>
           ErrorCode e = BAD_INPUT)) \<and>
   (fst (startRequest ctx tgt True False tsv) = None \<and> \<not> Throttle env \<and>
    length (activeTx (txPool tsv)) < txCapacity (txPool tsv) \<longrightarrow>
      startRequest ctx tgt False False tsv = (None, tsv\<lparr>requests := requests tsv + 1\<rparr>) \<and>
      Begin env ctx tgt (tsv\<lparr>requests := requests tsv + 1\<rparr>) =
        (Inr (int (lastID (txPool tsv)) + 1),
         tsv\<lparr>requests := requests tsv + 1,
             txPool := (txPool tsv)
               \<lparr>activeTx := activeTx (txPool tsv) @ [int (lastID (txPool tsv)) + 1],
                lastID := lastID (txPool tsv) + 1\<rparr>\<rparr>)) \<and>
   (fst (startRequest ctx tgt True False tsv) = None \<and> \<not> Throttle env \<and>
    length (activeTx (txPool tsv)) < txCapacity (txPool tsv) \<and> queries \<noteq> [] \<and>
    fst (executeLoop env ctx tgt queries (int (lastID (txPool tsv)) + 1) []
           (snd (Begin env ctx tgt (snd (startRequest ctx tgt False False tsv))))) = Inl e \<longrightarrow>
      ExecuteBatch env ctx tgt queries True 0 tsv =
        (Inl e, tsv\<lparr>txPool := snd (TxPool_Rollback (int (lastID (txPool tsv)) + 1)
           (txPool (snd (executeLoop env ctx tgt queries (int (lastID (txPool tsv)) + 1) []
              (snd (Begin env ctx tgt (snd (startRequest ctx tgt False False tsv))))))))\<rparr>)) \<and>
   (fst (startRequest ctx tgt True False tsv) = None \<and> \<not> Throttle env \<and>
    length (activeTx (txPool tsv)) < txCapacity (txPool tsv) \<and>
    (\<forall>b \<in> set passed. \<forall>p. \<exists>r.
       fst (qreExecute env (Sql b) (BindVariables b) (int (lastID (txPool tsv)) + 1) p) = Ok r) \<and>
    (\<forall>p. fst (qreExecute env (Sql q) (BindVariables q) (int (lastID (txPool tsv)) + 1) p) = out) \<and>
    outcomeResult env (Sql q) (BindVariables q) out = Inl e' \<longrightarrow>
      (\<exists>p. ExecuteBatch env ctx tgt (passed @ q # rest) True 0 tsv = (Inl e', tsv\<lparr>txPool := p\<rparr>) \<and>
           int (lastID (txPool tsv)) + 1 \<notin> set (activeTx p))) \<and>
   (fst (startRequest ctx tgt True False tsv) = None \<and> \<not> Throttle env \<and>
    length (activeTx (txPool tsv)) < txCapacity (txPool tsv) \<and>
    (\<forall>b \<in> set passed. \<forall>p. \<exists>r.
       fst (qreExecute env (Sql b) (BindVariables b) (int (lastID (txPool tsv)) + 1) p) = Ok r) \<and>
    (\<forall>p. fst (qreExecute env (Sql q) (BindVariables q) (int (lastID (txPool tsv)) + 1) p) = out) \<and>
    outcomeResult env (Sql q) (BindVariables q) out = Inl e' \<and>
    (\<forall>b \<in> set (passed @ [q]). \<forall>p.
       snd (qreExecute env (Sql b) (BindVariables b) (int (lastID (txPool tsv)) + 1) p) = p) \<longrightarrow>
      ExecuteBatch env ctx tgt (passed @ q # rest) True 0 tsv =
        (Inl e', tsv\<lparr>txPool := (txPool tsv)
           \<lparr>activeTx := filter (\<lambda>i. i \<noteq> int (lastID (txPool tsv)) + 1) (activeTx (txPool tsv)),
            lastID := lastID (txPool tsv) + 1,
            rolledBack := rolledBack (txPool tsv) @ [int (lastID (txPool tsv)) + 1]\<rparr>\<rparr>))"
proof (intro conjI impI)
  show "ExecuteBatch env ctx tgt [] asTransaction transactionID tsv
     = (Inl (NewTabletError BAD_INPUT ''Empty query list''), tsv)"
    by (simp add: ExecuteBatch_def)
next
  assume "asTransaction \<and> transactionID \<noteq> 0"
  then show "\<exists>e. ExecuteBatch env ctx tgt queries asTransaction transactionID tsv = (Inl e, tsv) \<and>
           ErrorCode e = BAD_INPUT"
    by (simp add: ExecuteBatch_def NewTabletError_def)
next
  assume h: "fst (startRequest ctx tgt True False tsv) = None \<and> \<not> Throttle env \<and>
    length (activeTx (txPool tsv)) < txCapacity (txPool tsv)"
  then show "startRequest ctx tgt False False tsv = (None, tsv\<lparr>requests := requests tsv + 1\<rparr>)"
    by (simp add: batch_admitted)
  from h show "Begin env ctx tgt (tsv\<lparr>requests := requests tsv + 1\<rparr>) =
        (Inr (int (lastID (txPool tsv)) + 1),
         tsv\<lparr>requests := requests tsv + 1,
             txPool := (txPool tsv)
               \<lparr>activeTx := activeTx (txPool tsv) @ [int (lastID (txPool tsv)) + 1],
                lastID := lastID (txPool tsv) + 1\<rparr>\<rparr>)"
    by (intro batch_Begin) simp_all
next
  assume "fst (startRequest ctx tgt True False tsv) = None \<and> \<not> Throttle env \<and>
    length (activeTx (txPool tsv)) < txCapacity (txPool tsv) \<and> queries \<noteq> [] \<and>
    fst (executeLoop env ctx tgt queries (int (lastID (txPool tsv)) + 1) []
           (snd (Begin env ctx tgt (snd (startRequest ctx tgt False False tsv))))) = Inl e"
  then show "ExecuteBatch env ctx tgt queries True 0 tsv =
        (Inl e, tsv\<lparr>txPool := snd (TxPool_Rollback (int (lastID (txPool tsv)) + 1)
           (txPool (snd (executeLoop env ctx tgt queries (int (lastID (txPool tsv)) + 1) []
              (snd (Begin env ctx tgt (snd (startRequest ctx tgt False False tsv))))))))\<rparr>)"
    by (intro ExecuteBatch_loop_failure) simp_all
next
  assume "fst (startRequest ctx tgt True False tsv) = None \<and> \<not> Throttle env \<and>
    length (activeTx (txPool tsv)) < txCapacity (txPool tsv) \<and>
    (\<forall>b \<in> set passed. \<forall>p. \<exists>r.
       fst (qreExecute env (Sql b) (BindVariables b) (int (lastID (txPool tsv)) + 1) p) = Ok r) \<and>
    (\<forall>p. fst (qreExecute env (Sql q) (BindVariables q) (int (lastID (txPool tsv)) + 1) p) = out) \<and>
    outcomeResult env (Sql q) (BindVariables q) out = Inl e'"
  then show "\<exists>p. ExecuteBatch env ctx tgt (passed @ q # rest) True 0 tsv = (Inl e', tsv\<lparr>txPool := p\<rparr>) \<and>
           int (lastID (txPool tsv)) + 1 \<notin> set (activeTx p)"
    using ExecuteBatch_failing_query [where ctx = ctx and tgt = tgt and tsv = tsv and env = env
            and passed = passed and q = q and out = out and e = e' and rest = rest] by blast
next
  assume h: "fst (startRequest ctx tgt True False tsv) = None \<and> \<not> Throttle env \<and>
    length (activeTx (txPool tsv)) < txCapacity (txPool tsv) \<and>
    (\<forall>b \<in> set passed. \<forall>p. \<exists>r.
       fst (qreExecute env (Sql b) (BindVariables b) (int (lastID (txPool tsv)) + 1) p) = Ok r) \<and>
    (\<forall>p. fst (qreExecute env (Sql q) (BindVariables q) (int (lastID (txPool tsv)) + 1) p) = out) \<and>
    outcomeResult env (Sql q) (BindVariables q) out = Inl e' \<and>
    (\<forall>b \<in> set (passed @ [q]). \<forall>p.
       snd (qreExecute env (Sql b) (BindVariables b) (int (lastID (txPool tsv)) + 1) p) = p)"
  show "ExecuteBatch env ctx tgt (passed @ q # rest) True 0 tsv =
        (Inl e', tsv\<lparr>txPool := (txPool tsv)
           \<lparr>activeTx := filter (\<lambda>i. i \<noteq> int (lastID (txPool tsv)) + 1) (activeTx (txPool tsv)),
            lastID := lastID (txPool tsv) + 1,
            rolledBack := rolledBack (txPool tsv) @ [int (lastID (txPool tsv)) + 1]\<rparr>\<rparr>)"
    by (rule ExecuteBatch_failing_query_exact [where out = out]) (use h in blast)+
qed

theorem ExecuteBatch_errors_witness:
  "ExecuteBatch fixtureEnv remoteContext (Some fixtureTarget) [] True 0 fixtureServer
     = (Inl (NewTabletError BAD_INPUT ''Empty query list''), fixtureServer) \<and>
   Begin fixtureEnv remoteContext (Some fixtureTarget) (fixtureServer\<lparr>requests := 1\<rparr>)
     = (Inr 1, fixtureServer\<lparr>requests := 1,
                             txPool := \<lparr>activeTx = [1], lastID = 1, txCapacity = 3,
                                        committed = [], rolledBack = []\<rparr>\<rparr>) \<and>
   ExecuteBatch fixtureEnv remoteContext (Some fixtureTarget)
       [\<lparr>Sql = ''insert into t values (1)'', BindVariables = []\<rparr>,
        \<lparr>Sql = ''fail'', BindVariables = []\<rparr>,
        \<lparr>Sql = ''insert into t values (2)'', BindVariables = []\<rparr>] True 0 fixtureServer
     = (Inl \<lparr>Message = ''Duplicate entry (errno 1062) (sqlstate 23000)'',
              SQLError = 1062, SQLState = ''23000'', ErrorCode = INTEGRITY_ERROR\<rparr>,
        fixtureServer\<lparr>txPool := \<lparr>activeTx = [], lastID = 1, txCapacity = 3,
                                    committed = [], rolledBack = [1]\<rparr>\<rparr>)"
  using ExecuteBatch_errors [where env = fixtureEnv and ctx = remoteContext
          and tgt = "Some fixtureTarget" and tsv = fixtureServer
          and asTransaction = True and transactionID = 0
          and queries = "[\<lparr>Sql = ''insert into t values (1)'', BindVariables = []\<rparr>,
                          \<lparr>Sql = ''fail'', BindVariables = []\<rparr>,
                          \<lparr>Sql = ''insert into t values (2)'', BindVariables = []\<rparr>]"
          and passed = "[\<lparr>Sql = ''insert into t values (1)'', BindVariables = []\<rparr>]"
          and q = "\<lparr>Sql = ''fail'', BindVariables = []\<rparr>"
          and rest = "[\<lparr>Sql = ''insert into t values (2)'', BindVariables = []\<rparr>]"
          and out = "Err (TabletErr \<lparr>Message = ''Duplicate entry (errno 1062) (sqlstate 23000)'',
                            SQLError = 1062, SQLState = ''23000'',
                            ErrorCode = INTEGRITY_ERROR\<rparr>)"
          and e = "\<lparr>Message = ''Duplicate entry (errno 1062) (sqlstate 23000)'',
                            SQLError = 1062, SQLState = ''23000'',
                            ErrorCode = INTEGRITY_ERROR\<rparr>"
          and e' = "\<lparr>Message = ''Duplicate entry (errno 1062) (sqlstate 23000)'',
                            SQLError = 1062, SQLState = ''23000'',
                            ErrorCode = INTEGRITY_ERROR\<rparr>"]
  by (simp add: ExecuteBatch_def batchBody_def Begin_def Commit_def Rollback_def Execute_def
        execRequest_def startRequest_def endRequest_def deferredRollback_def
        beginExec_def rollbackExec_def TxPool_Begin_def TxPool_Rollback_def
        handleError_def NewTabletError_def Let_def
        fixtureEnv_def fixtureServer_def fixtureTarget_def fixturePool_def remoteContext_def)

end
